theory Spec2Isabelle
  imports Complex_Main
begin

section \<open>Python strings\<close>

text \<open>
  A Python \<open>str\<close> is a sequence of Unicode code points; \<open>len\<close> counts code points and
  the knowledge base holds Devanagari and Gujarati text, so a string is modelled as the
  list of its code points. \<open>ustr\<close> writes an ASCII literal.
\<close>

type_synonym str = "nat list"

definition ustr :: "string \<Rightarrow> str" where
  "ustr cs = map of_char cs"

text \<open>\<open>startswith sub s\<close> is \<open>s.startswith(sub)\<close>; \<open>contains s sub\<close> is \<open>sub in s\<close>.\<close>

fun startswith :: "str \<Rightarrow> str \<Rightarrow> bool" where
  "startswith [] s = True"
| "startswith (x # xs) [] = False"
| "startswith (x # xs) (y # ys) = (x = y \<and> startswith xs ys)"

fun contains :: "str \<Rightarrow> str \<Rightarrow> bool" where
  "contains [] sub = (sub = [])"
| "contains (y # ys) sub = (startswith sub (y # ys) \<or> contains ys sub)"

text \<open>
  Comparison of two texts code point by code point, a proper prefix first: SQLite's
  \<open>BINARY\<close> collation on \<open>TEXT\<close> values (the order of the UTF-8 bytes is the order of the
  code points).
\<close>

fun str_lt :: "str \<Rightarrow> str \<Rightarrow> bool" where
  "str_lt [] [] = False"
| "str_lt [] (y # ys) = True"
| "str_lt (x # xs) [] = False"
| "str_lt (x # xs) (y # ys) = (x < y \<or> (x = y \<and> str_lt xs ys))"

text \<open>Decimal digits of a number, and \<open>%0wd\<close> formatting.\<close>

function digits :: "nat \<Rightarrow> str" where
  "digits n = (if n < 10 then [48 + n] else digits (n div 10) @ [48 + n mod 10])"
  by pat_completeness auto
termination
  by (relation "measure id") auto

declare digits.simps [simp del]

definition zero_pad :: "nat \<Rightarrow> nat \<Rightarrow> str" where
  "zero_pad w n = replicate (w - length (digits n)) 48 @ digits n"

section \<open>Dates and times\<close>

text \<open>
  A naive \<open>datetime\<close> of Python: the fields of the object. \<open>isoformat\<close> and
  \<open>date_isoformat\<close> are \<open>datetime.isoformat()\<close> and \<open>date.isoformat()\<close>;
  \<open>sqlite_timestamp\<close> is the text SQLite stores for \<open>CURRENT_TIMESTAMP\<close>
  (\<open>YYYY-MM-DD HH:MM:SS\<close>).
\<close>

record datetime =
  year :: nat
  month :: nat
  day :: nat
  hour :: nat
  minute :: nat
  second :: nat
  microsecond :: nat

definition date_isoformat :: "datetime \<Rightarrow> str" where
  "date_isoformat t =
     zero_pad 4 (year t) @ ustr ''-'' @ zero_pad 2 (month t) @ ustr ''-'' @ zero_pad 2 (day t)"

definition format_time :: "datetime \<Rightarrow> str" where
  "format_time t =
     zero_pad 2 (hour t) @ ustr '':'' @ zero_pad 2 (minute t) @ ustr '':'' @ zero_pad 2 (second t)
     @ (if microsecond t \<noteq> 0 then ustr ''.'' @ zero_pad 6 (microsecond t) else [])"

definition isoformat :: "datetime \<Rightarrow> str" where
  "isoformat t = date_isoformat t @ ustr ''T'' @ format_time t"

definition sqlite_timestamp :: "datetime \<Rightarrow> str" where
  "sqlite_timestamp t =
     date_isoformat t @ ustr '' '' @
     zero_pad 2 (hour t) @ ustr '':'' @ zero_pad 2 (minute t) @ ustr '':'' @ zero_pad 2 (second t)"

text \<open>
  \<open>datetime - timedelta(days=n)\<close>: the date goes through its proleptic Gregorian ordinal
  (1 January of year 1 is day 1), as \<open>_ymd2ord\<close> and \<open>_ord2ymd\<close> of the standard library
  compute it; the time of day is kept.
\<close>

datatype error = Sqlite_error | ZeroDivisionError | OverflowError | ValidationError

definition is_leap :: "int \<Rightarrow> bool" where
  "is_leap y = (y mod 4 = 0 \<and> (y mod 100 \<noteq> 0 \<or> y mod 400 = 0))"

definition days_before_year :: "int \<Rightarrow> int" where
  "days_before_year yr = (let y = yr - 1 in y * 365 + y div 4 - y div 100 + y div 400)"

definition DAYS_IN_MONTH :: "int list" where
  "DAYS_IN_MONTH = [-1, 31, 28, 31, 30, 31, 30, 31, 31, 30, 31, 30, 31]"

definition DAYS_BEFORE_MONTH :: "int list" where
  "DAYS_BEFORE_MONTH = [-1, 0, 31, 59, 90, 120, 151, 181, 212, 243, 273, 304, 334]"

definition days_before_month :: "int \<Rightarrow> nat \<Rightarrow> int" where
  "days_before_month y m = DAYS_BEFORE_MONTH ! m + (if m > 2 \<and> is_leap y then 1 else 0)"

definition ymd2ord :: "nat \<Rightarrow> nat \<Rightarrow> nat \<Rightarrow> int" where
  "ymd2ord y m d = days_before_year (int y) + days_before_month (int y) m + int d"

definition ord2ymd :: "int \<Rightarrow> nat \<times> nat \<times> nat" where
  "ord2ymd ordinal =
     (let n = ordinal - 1;
          n400 = n div 146097; n = n mod 146097;
          yr = n400 * 400 + 1;
          n100 = n div 36524; n = n mod 36524;
          n4 = n div 1461; n = n mod 1461;
          n1 = n div 365; n = n mod 365;
          yr = yr + n100 * 100 + n4 * 4 + n1
      in if n1 = 4 \<or> n100 = 4 then (nat (yr - 1), 12, 31)
         else
           let leapyear = (n1 = 3 \<and> (n4 \<noteq> 24 \<or> n100 = 3));
               m = nat ((n + 50) div 32);
               preceding = DAYS_BEFORE_MONTH ! m + (if m > 2 \<and> leapyear then 1 else 0)
           in if preceding > n
              then let m' = m - 1;
                       preceding' = preceding - (DAYS_IN_MONTH ! m' + (if m' = 2 \<and> leapyear then 1 else 0))
                   in (nat yr, m', nat (n - preceding' + 1))
              else (nat yr, m, nat (n - preceding + 1)))"

definition datetime_minus_days :: "datetime \<Rightarrow> int \<Rightarrow> error + datetime" where
  "datetime_minus_days t days =
     (if \<bar>days\<bar> > 999999999 then Inl OverflowError
      else
        let n = ymd2ord (year t) (month t) (day t) - days
        in if n < 1 \<or> n > 3652059 then Inl OverflowError
           else case ord2ymd n of (y, m, d) \<Rightarrow> Inr (t\<lparr>year := y, month := m, day := d\<rparr>))"

section \<open>The conversation store (conversation_logger.py)\<close>

text \<open>
  The three tables of \<open>init_database\<close>, a row per record and a table as the list of its
  rows in insertion order. \<open>languages_used\<close> is kept as the JSON text the SQL statements
  work on; the two breakdowns are the Python dicts that \<open>json.loads\<close> and \<open>json.dumps\<close>
  carry to and from the table, as association lists in insertion order. Confidences are
  Python floats, modelled as real numbers. \<open>conversations_seq\<close> is the last value of the
  \<open>AUTOINCREMENT\<close> key.
\<close>

record session_row =
  session_id :: str
  created_at :: str
  updated_at :: str
  message_count :: int
  languages_used :: str

record conversation_row =
  conv_id :: int
  conv_session_id :: str
  timestamp :: str
  user_message :: str
  bot_response :: str
  language :: str
  conv_confidence :: real
  conv_category :: "str option"
  conv_needs_human :: bool

record daily_stat_row =
  date :: str
  total_conversations :: int
  total_sessions :: int
  languages_breakdown :: "(str \<times> int) list"
  categories_breakdown :: "(str \<times> int) list"
  avg_confidence :: real
  human_handoff_count :: int

record store =
  sessions :: "session_row list"
  conversations :: "conversation_row list"
  daily_stats :: "daily_stat_row list"
  conversations_seq :: int

definition init_database :: store where
  "init_database = \<lparr>sessions = [], conversations = [], daily_stats = [], conversations_seq = 0\<rparr>"

subsection \<open>JSON text and LIKE, as the session upsert uses them\<close>

definition hex_digit :: "nat \<Rightarrow> nat" where
  "hex_digit d = (if d < 10 then 48 + d else 87 + d)"

definition u_escape :: "nat \<Rightarrow> str" where
  "u_escape c =
     [92, 117] @ [hex_digit (c div 4096 mod 16), hex_digit (c div 256 mod 16),
                     hex_digit (c div 16 mod 16), hex_digit (c mod 16)]"

text \<open>
  The escapes \<open>json.dumps\<close> and SQLite share: quote (34) and backslash (92) behind a
  backslash, the short escapes of newline, carriage return, tab, backspace and form feed,
  and \<open>\u00XX\<close> for the other control characters.
\<close>

definition json_escape_common :: "nat \<Rightarrow> str" where
  "json_escape_common c =
     (if c = 34 then [92, 34]
      else if c = 92 then [92, 92]
      else if c = 10 then [92, 110]
      else if c = 13 then [92, 114]
      else if c = 9 then [92, 116]
      else if c = 8 then [92, 98]
      else if c = 12 then [92, 102]
      else if c < 32 then u_escape c
      else [c])"

text \<open>
  \<open>json.dumps\<close> with its default \<open>ensure_ascii=True\<close> also escapes every code point
  outside \<open>' '..'~'\<close>, one above \<open>0xFFFF\<close> as a surrogate pair.
\<close>

definition py_json_escape :: "nat \<Rightarrow> str" where
  "py_json_escape c =
     (if c > 65535 then
        u_escape (55296 + (c - 65536) div 1024 mod 1024) @ u_escape (56320 + (c - 65536) mod 1024)
      else if c > 126 then u_escape c
      else json_escape_common c)"

definition json_dumps_list1 :: "str \<Rightarrow> str" where
  "json_dumps_list1 v = [91, 34] @ concat (map py_json_escape v) @ [34, 93]"

text \<open>
  \<open>json_extract(X, '$')\<close> gives the text of the whole array, which for the minified
  arrays this table holds is the stored text; \<open>json_insert(X, '$[#]', v)\<close> appends the
  string \<open>v\<close> to the array.
\<close>

definition json_extract_root :: "str \<Rightarrow> str" where
  "json_extract_root x = x"

definition json_insert_end :: "str \<Rightarrow> str \<Rightarrow> str" where
  "json_insert_end x v =
     (let q = [34] @ concat (map json_escape_common v) @ [34]
      in if x = ustr ''[]'' then ustr ''['' @ q @ ustr '']''
         else butlast x @ ustr '','' @ q @ ustr '']'')"

text \<open>
  SQLite's \<open>LIKE\<close>: \<open>%\<close> matches any run of characters, \<open>_\<close> any one character, and
  ASCII letters match without regard to case.
\<close>

definition sqlite_tolower :: "nat \<Rightarrow> nat" where
  "sqlite_tolower c = (if 65 \<le> c \<and> c \<le> 90 then c + 32 else c)"

fun like_match :: "str \<Rightarrow> str \<Rightarrow> bool" where
  "like_match [] t = (t = [])"
| "like_match (p # ps) [] = (p = 37 \<and> like_match ps [])"
| "like_match (p # ps) (c # cs) =
     (if p = 37 then like_match ps (c # cs) \<or> like_match (p # ps) cs
      else (p = 95 \<or> sqlite_tolower p = sqlite_tolower c) \<and> like_match ps cs)"

subsection \<open>log_conversation\<close>

text \<open>
  The clock of one call: \<open>utc_now\<close> is what \<open>CURRENT_TIMESTAMP\<close> reads, \<open>local_now\<close> what
  \<open>date.today()\<close> and \<open>datetime.now()\<close> read.
\<close>

record clock =
  utc_now :: datetime
  local_now :: datetime

definition today :: "clock \<Rightarrow> str" where
  "today clk = date_isoformat (local_now clk)"

text \<open>
  The \<open>INSERT ... ON CONFLICT(session_id) DO UPDATE\<close> of lines 72-83.
\<close>

definition upsert_session :: "str \<Rightarrow> str \<Rightarrow> str \<Rightarrow> session_row list \<Rightarrow> session_row list" where
  "upsert_session now sid lang rows =
     (case find (\<lambda>r. session_id r = sid) rows of
        None \<Rightarrow>
          rows @ [\<lparr>session_id = sid, created_at = now, updated_at = now, message_count = 1,
                   languages_used = json_dumps_list1 lang\<rparr>]
      | Some _ \<Rightarrow>
          map (\<lambda>r. if session_id r = sid
                    then r\<lparr>updated_at := now,
                           message_count := message_count r + 1,
                           languages_used :=
                             (if like_match (ustr ''%'' @ lang @ ustr ''%'')
                                   (json_extract_root (languages_used r))
                              then languages_used r
                              else json_insert_end (languages_used r) lang)\<rparr>
                    else r) rows)"

text \<open>The \<open>INSERT INTO conversations\<close> of lines 86-90.\<close>

definition insert_conversation ::
  "str \<Rightarrow> str \<Rightarrow> str \<Rightarrow> str \<Rightarrow> str \<Rightarrow> real \<Rightarrow> str option \<Rightarrow> bool \<Rightarrow> store \<Rightarrow> store" where
  "insert_conversation now sid user_msg bot_resp lang conf cat nh s =
     s\<lparr>conversations := conversations s @
          [\<lparr>conv_id = conversations_seq s + 1, conv_session_id = sid, timestamp = now,
            user_message = user_msg, bot_response = bot_resp, language = lang,
            conv_confidence = conf, conv_category = cat, conv_needs_human = nh\<rparr>],
       conversations_seq := conversations_seq s + 1\<rparr>"

text \<open>\<open>d[k] = d.get(k, 0) + 1\<close> on a dict.\<close>

definition dict_incr :: "str \<Rightarrow> (str \<times> int) list \<Rightarrow> (str \<times> int) list" where
  "dict_incr k d =
     (case map_of d k of
        None \<Rightarrow> d @ [(k, 1)]
      | Some _ \<Rightarrow> map (\<lambda>(k', v). if k' = k then (k', v + 1) else (k', v)) d)"

text \<open>\<open>if category:\<close> is false for \<open>None\<close> and for the empty string.\<close>

fun incr_category :: "str option \<Rightarrow> (str \<times> int) list \<Rightarrow> (str \<times> int) list" where
  "incr_category None d = d"
| "incr_category (Some c) d = (if c = [] then d else dict_incr c d)"

definition update_daily_stats ::
  "str \<Rightarrow> str \<Rightarrow> str option \<Rightarrow> real \<Rightarrow> bool \<Rightarrow> store \<Rightarrow> error + store" where
  "update_daily_stats today_iso lang cat conf nh s =
     (case find (\<lambda>r. date r = today_iso) (daily_stats s) of
        Some row \<Rightarrow>
          (let new_total = total_conversations row + 1
           in if new_total = 0 then Inl ZeroDivisionError
              else
                let new_avg_confidence =
                      ((avg_confidence row * real_of_int (total_conversations row)) + conf)
                        / real_of_int new_total;
                    new_handoff_count = human_handoff_count row + (if nh then 1 else 0)
                in Inr (s\<lparr>daily_stats :=
                     map (\<lambda>r. if date r = today_iso
                               then r\<lparr>total_conversations := new_total,
                                      languages_breakdown := dict_incr lang (languages_breakdown row),
                                      categories_breakdown := incr_category cat (categories_breakdown row),
                                      avg_confidence := new_avg_confidence,
                                      human_handoff_count := new_handoff_count\<rparr>
                               else r) (daily_stats s)\<rparr>))
      | None \<Rightarrow>
          Inr (s\<lparr>daily_stats := daily_stats s @
                 [\<lparr>date = today_iso, total_conversations = 1, total_sessions = 0,
                   languages_breakdown = [(lang, 1)],
                   categories_breakdown = incr_category cat [],
                   avg_confidence = conf,
                   human_handoff_count = (if nh then 1 else 0)\<rparr>]\<rparr>))"

text \<open>
  A call of \<open>log_conversation\<close> opens two connections, one after the other, each a
  \<open>with sqlite3.connect(...)\<close> block ended by its own \<open>commit\<close>: the first holds the session
  upsert and the turn insert, the second (\<open>_update_daily_stats\<close>) the daily statistics.
  An exception inside a block rolls that block back and leaves the method. \<open>db_fault\<close>
  says in which block, if any, SQLite raises (disk full, database locked). The run
  records the exception raised, if any, and the states committed, in order: these are the
  states a reader of the database can see.
\<close>

datatype db_fault = No_fault | Turn_block_fails | Stats_block_fails

record log_run =
  raised :: "error option"
  committed :: "store list"

definition log_conversation ::
  "db_fault \<Rightarrow> clock \<Rightarrow> str \<Rightarrow> str \<Rightarrow> str \<Rightarrow> str \<Rightarrow> real \<Rightarrow> str option \<Rightarrow> bool \<Rightarrow> store \<Rightarrow> log_run" where
  "log_conversation fault clk sid user_msg bot_resp lang conf cat nh s =
     (if fault = Turn_block_fails then \<lparr>raised = Some Sqlite_error, committed = []\<rparr>
      else
        let now = sqlite_timestamp (utc_now clk);
            s1 = insert_conversation now sid user_msg bot_resp lang conf cat nh
                   (s\<lparr>sessions := upsert_session now sid lang (sessions s)\<rparr>)
        in if fault = Stats_block_fails then \<lparr>raised = Some Sqlite_error, committed = [s1]\<rparr>
           else case update_daily_stats (today clk) lang cat conf nh s1 of
                  Inl e \<Rightarrow> \<lparr>raised = Some e, committed = [s1]\<rparr>
                | Inr s2 \<Rightarrow> \<lparr>raised = None, committed = [s1, s2]\<rparr>)"

definition store_after :: "store \<Rightarrow> log_run \<Rightarrow> store" where
  "store_after s run = last (s # committed run)"

subsection \<open>cleanup_old_logs\<close>

text \<open>
  The three \<open>DELETE\<close> statements of lines 298-315. The cutoff reaches the first as the text
  \<open>cutoff_date.isoformat()\<close> and the third as \<open>cutoff_date.date().isoformat()\<close>; the
  columns hold text, so \<open><\<close> compares texts.
\<close>

definition cleanup_old_logs :: "datetime \<Rightarrow> int \<Rightarrow> store \<Rightarrow> error + store" where
  "cleanup_old_logs now days_to_keep s =
     (case datetime_minus_days now days_to_keep of
        Inl e \<Rightarrow> Inl e
      | Inr cutoff_date \<Rightarrow>
          let cs = filter (\<lambda>c. \<not> str_lt (timestamp c) (isoformat cutoff_date)) (conversations s);
              ss = filter (\<lambda>r. session_id r \<in> set (map conv_session_id cs)) (sessions s);
              ds = filter (\<lambda>r. \<not> str_lt (date r) (date_isoformat cutoff_date)) (daily_stats s)
          in Inr (s\<lparr>conversations := cs, sessions := ss, daily_stats := ds\<rparr>))"

text \<open>
  The store states the program can reach from the empty database: every state a call of
  \<open>log_conversation\<close> commits, and the state a cleanup leaves.
\<close>

inductive reachable :: "store \<Rightarrow> bool" where
  reachable_init: "reachable init_database"
| reachable_log:
    "reachable s \<Longrightarrow>
     s' \<in> set (committed (log_conversation fault clk sid user_msg bot_resp lang conf cat nh s)) \<Longrightarrow>
     reachable s'"
| reachable_cleanup:
    "reachable s \<Longrightarrow> cleanup_old_logs now days_to_keep s = Inr s' \<Longrightarrow> reachable s'"

subsection \<open>Sequences of logging calls\<close>

text \<open>
  \<open>get_daily_stats\<close> is the \<open>SELECT * FROM daily_stats WHERE date = ?\<close> with \<open>fetchone\<close>
  of the method of that name. A \<open>log_call\<close> holds the arguments of one call of
  \<open>log_conversation\<close>; \<open>log_turns\<close> runs calls one after the other, with no SQLite
  failure, and stops at the first exception.
\<close>

definition get_daily_stats :: "str \<Rightarrow> store \<Rightarrow> daily_stat_row option" where
  "get_daily_stats date_str s = find (\<lambda>r. date r = date_str) (daily_stats s)"

record log_call =
  call_session_id :: str
  call_user_message :: str
  call_bot_response :: str
  call_language :: str
  call_confidence :: real
  call_category :: "str option"
  call_needs_human :: bool

definition run_log_call :: "clock \<Rightarrow> log_call \<Rightarrow> store \<Rightarrow> log_run" where
  "run_log_call clk c s =
     log_conversation No_fault clk (call_session_id c) (call_user_message c) (call_bot_response c)
       (call_language c) (call_confidence c) (call_category c) (call_needs_human c) s"

fun log_turns :: "(clock \<times> log_call) list \<Rightarrow> store \<Rightarrow> error + store" where
  "log_turns [] s = Inr s"
| "log_turns ((clk, c) # cs) s =
     (let run = run_log_call clk c s
      in case raised run of
           Some e \<Rightarrow> Inl e
         | None \<Rightarrow> log_turns cs (store_after s run))"

section \<open>Library functions\<close>

text \<open>
  Four functions of libraries the program calls are parameters of the model:
  \<^item> \<open>lang_detect\<close> is \<open>langdetect.detect\<close>, \<open>None\<close> when it raises \<open>LangDetectException\<close>;
  \<^item> \<open>re_word\<close> says which code points the \<open>re\<close> module counts as word characters
    (\<open>\w\<close>), which decides where \<open>\b\<close> matches;
  \<^item> \<open>str_lower\<close> is \<open>str.lower\<close>;
  \<^item> \<open>seq_ratio a b\<close> is \<open>difflib.SequenceMatcher(None, a, b).ratio()\<close>.
\<close>

record lib =
  lang_detect :: "str \<Rightarrow> str option"
  re_word :: "nat \<Rightarrow> bool"
  str_lower :: "str \<Rightarrow> str"
  seq_ratio :: "str \<Rightarrow> str \<Rightarrow> real"

section \<open>The language identifier (language_processor.py)\<close>

text \<open>
  The two shapes of regular expression in \<open>language_patterns\<close>: a range of code points
  \<open>[lo-hi]\<close>, and whole words \<open>\b(w1|w2|...)\b\<close>. The letters of every pattern are
  Devanagari or Gujarati, which have no case, so \<open>re.IGNORECASE\<close> changes nothing.
\<close>

datatype pattern = Script_range nat nat | Whole_word "str list"

definition language_map :: "(str \<times> str) list" where
  "language_map =
     [(ustr ''en'', ustr ''en''), (ustr ''hi'', ustr ''hi''), (ustr ''gu'', ustr ''gu''),
      (ustr ''mr'', ustr ''mr''), (ustr ''raj'', ustr ''raj'')]"

definition language_patterns :: "(str \<times> pattern list) list" where
  "language_patterns =
     [(ustr ''hi'',
       [Script_range 2304 2431,
        Whole_word
          [[2325, 2381, 2351, 2366], [2325, 2376, 2360, 2375], [2325, 2348], [2325, 2381, 2351, 2379,
           2306], [2325, 2361, 2366, 2305], [2344, 2350, 2360, 2381, 2340, 2375], [2343, 2344, 2381,
           2351, 2357, 2366, 2342]]]),
      (ustr ''gu'',
       [Script_range 2688 2815,
        Whole_word
          [[2742, 2753, 2690], [2709, 2759, 2741, 2752], [2709, 2765, 2735, 2750, 2736, 2759], [2709,
           2759, 2734], [2709, 2765, 2735, 2750, 2690], [2728, 2734, 2744, 2765, 2724, 2759], [2727,
           2728, 2765, 2735, 2741, 2750, 2726]]]),
      (ustr ''mr'',
       [Script_range 2304 2431,
        Whole_word
          [[2325, 2366, 2351], [2325, 2360, 2375], [2325, 2375, 2357, 2381, 2361, 2366], [2325, 2366],
           [2325, 2369, 2336, 2375], [2344, 2350, 2360, 2381, 2325, 2366, 2352], [2343, 2344, 2381,
           2351, 2357, 2366, 2342]]]),
      (ustr ''raj'',
       [Script_range 2304 2431,
        Whole_word
          [[2325, 2375], [2325, 2376, 2306], [2325, 2342], [2325, 2381, 2351, 2370, 2306], [2325,
           2336, 2376], [2344, 2350, 2360, 2381, 2340, 2375], [2343, 2344, 2381, 2351, 2357, 2366,
           2342]]])]"

text \<open>
  \<open>\b\<close> matches between two positions when exactly one of the neighbouring characters is
  a word character; the ends of the text count as non-word.
\<close>

definition word_boundary :: "lib \<Rightarrow> nat option \<Rightarrow> nat option \<Rightarrow> bool" where
  "word_boundary l before after =
     ((case before of None \<Rightarrow> False | Some c \<Rightarrow> re_word l c)
      \<noteq> (case after of None \<Rightarrow> False | Some c \<Rightarrow> re_word l c))"

definition head_opt :: "str \<Rightarrow> nat option" where
  "head_opt s = (case s of [] \<Rightarrow> None | c # _ \<Rightarrow> Some c)"

text \<open>
  \<open>words_match_here l prev ws s\<close>: some alternative of \<open>\b(w1|...)\b\<close> matches at the head of
  \<open>s\<close>, where \<open>prev\<close> is the character before it.
\<close>

definition words_match_here :: "lib \<Rightarrow> nat option \<Rightarrow> str list \<Rightarrow> str \<Rightarrow> bool" where
  "words_match_here l prev ws s =
     list_ex (\<lambda>w. startswith w s
                  \<and> word_boundary l prev (head_opt s)
                  \<and> word_boundary l (if w = [] then prev else Some (last w))
                       (head_opt (drop (length w) s))) ws"

fun search_words :: "lib \<Rightarrow> nat option \<Rightarrow> str list \<Rightarrow> str \<Rightarrow> bool" where
  "search_words l prev ws [] = words_match_here l prev ws []"
| "search_words l prev ws (c # cs) =
     (words_match_here l prev ws (c # cs) \<or> search_words l (Some c) ws cs)"

fun re_search :: "lib \<Rightarrow> pattern \<Rightarrow> str \<Rightarrow> bool" where
  "re_search l (Script_range lo hi) s = list_ex (\<lambda>c. lo \<le> c \<and> c \<le> hi) s"
| "re_search l (Whole_word ws) s = search_words l None ws s"

text \<open>The whitespace of \<open>str.strip()\<close>: the code points for which \<open>str.isspace\<close> holds.\<close>

definition isspace :: "nat \<Rightarrow> bool" where
  "isspace c =
     ((9 \<le> c \<and> c \<le> 13) \<or> (28 \<le> c \<and> c \<le> 32) \<or> c = 133 \<or> c = 160 \<or> c = 5760
      \<or> (8192 \<le> c \<and> c \<le> 8202) \<or> c = 8232 \<or> c = 8233 \<or> c = 8239 \<or> c = 8287 \<or> c = 12288)"

definition strip :: "str \<Rightarrow> str" where
  "strip s = rev (dropWhile isspace (rev (dropWhile isspace s)))"

definition pattern_based_detection :: "lib \<Rightarrow> str \<Rightarrow> str option" where
  "pattern_based_detection l s =
     (case find (\<lambda>(lang, patterns). list_ex (\<lambda>p. re_search l p s) patterns) language_patterns of
        None \<Rightarrow> None
      | Some (lang, _) \<Rightarrow> Some lang)"

definition map_similar_language :: "str \<Rightarrow> str" where
  "map_similar_language detected_lang =
     (case map_of [(ustr ''ne'', ustr ''hi''), (ustr ''bn'', ustr ''hi''),
                   (ustr ''ur'', ustr ''hi''), (ustr ''pa'', ustr ''hi'')] detected_lang of
        Some code \<Rightarrow> code
      | None \<Rightarrow> ustr ''en'')"

definition detect_language :: "lib \<Rightarrow> str \<Rightarrow> str" where
  "detect_language l s =
     (if s = [] \<or> length (strip s) < 3 then ustr ''en''
      else case pattern_based_detection l s of
             Some detected_lang \<Rightarrow> detected_lang
           | None \<Rightarrow>
               (case lang_detect l s of
                  None \<Rightarrow> ustr ''en''
                | Some detected \<Rightarrow>
                    (case map_of language_map detected of
                       Some code \<Rightarrow> code
                     | None \<Rightarrow> map_similar_language detected)))"

definition is_supported_language :: "str \<Rightarrow> bool" where
  "is_supported_language lang = (lang \<in> set (map fst language_map))"

section \<open>The classification engine (chatbot_engine.py)\<close>

text \<open>
  The knowledge base has the shape of the built-in one: the categories in their declared
  order, each with its keywords and its responses by language code, the greetings entry,
  and the contact record.
\<close>

record kb_entry =
  kb_keywords :: "str list"
  kb_responses :: "(str \<times> str) list"

record knowledge_base =
  categories :: "(str \<times> kb_entry) list"
  greetings :: kb_entry
  contact :: "(str \<times> str) list"

subsection \<open>The texts of the built-in knowledge base\<close>

text \<open>
  The response texts of \<open>_get_default_knowledge_base\<close> and \<open>_get_fallback_response\<close>, by
  category and language; a text outside ASCII is the list of its code points.
\<close>

definition fees_en :: str where
  "fees_en =
     ustr ''Fee payment deadline is usually at the beginning of each semester. You can pay online through the college portal or visit the accounts office.''"

definition fees_hi :: str where
  "fees_hi =
     [2358, 2369, 2354, 2381, 2325, 32, 2349, 2369, 2327, 2340, 2366, 2344, 32, 2325, 2368, 32,
      2309, 2306, 2340, 2367, 2350, 32, 2340, 2367, 2341, 2367, 32, 2310, 2350, 2340, 2380,
      2352, 32, 2346, 2352, 32, 2361, 2352, 32, 2360, 2375, 2350, 2375, 2360, 2381, 2335, 2352,
      32, 2325, 2368, 32, 2358, 2369, 2352, 2369, 2310, 2340, 32, 2350, 2375, 2306, 32, 2361,
      2379, 2340, 2368, 32, 2361, 2376, 2404, 32, 2310, 2346, 32, 2325, 2377, 2354, 2375, 2332,
      32, 2346, 2379, 2352, 2381, 2335, 2354, 32, 2325, 2375, 32, 2350, 2366, 2343, 2381, 2351,
      2350, 32, 2360, 2375, 32, 2321, 2344, 2354, 2366, 2311, 2344, 32, 2349, 2369, 2327, 2340,
      2366, 2344, 32, 2325, 2352, 32, 2360, 2325, 2340, 2375, 32, 2361, 2376, 2306, 32, 2351,
      2366, 32, 2326, 2366, 2340, 2366, 32, 2325, 2366, 2352, 2381, 2351, 2366, 2354, 2351, 32,
      2332, 2366, 32, 2360, 2325, 2340, 2375, 32, 2361, 2376, 2306, 2404]"

definition fees_gu :: str where
  "fees_gu =
     [2731, 2752, 32, 2714, 2753, 2709, 2741, 2723, 2752, 2728, 2752, 32, 2693, 2690, 2724,
      2751, 2734, 32, 2724, 2750, 2736, 2752, 2710, 32, 2744, 2750, 2734, 2750, 2728, 2765,
      2735, 32, 2736, 2752, 2724, 2759, 32, 2726, 2736, 2759, 2709, 32, 2744, 2759, 2734, 2759,
      2744, 2765, 2719, 2736, 2728, 2752, 32, 2742, 2736, 2754, 2694, 2724, 2734, 2750, 2690,
      32, 2745, 2763, 2735, 32, 2715, 2759, 46, 32, 2724, 2734, 2759, 32, 2709, 2761, 2738,
      2759, 2716, 32, 2730, 2763, 2736, 2765, 2719, 2738, 32, 2726, 2765, 2741, 2750, 2736,
      2750, 32, 2705, 2728, 2738, 2750, 2695, 2728, 32, 2714, 2753, 2709, 2741, 2723, 2752, 32,
      2709, 2736, 2752, 32, 2742, 2709, 2763, 32, 2715, 2763, 32, 2693, 2725, 2741, 2750, 32,
      2703, 2709, 2750, 2697, 2728, 2765, 2719, 2765, 2744, 32, 2705, 2731, 2751, 2744, 2728,
      2752, 32, 2734, 2753, 2738, 2750, 2709, 2750, 2724, 32, 2738, 2696, 32, 2742, 2709, 2763,
      32, 2715, 2763, 46]"

definition fees_mr :: str where
  "fees_mr =
     [2358, 2369, 2354, 2381, 2325, 32, 2349, 2352, 2339, 2366, 2330, 2368, 32, 2358, 2375,
      2357, 2335, 2330, 2368, 32, 2340, 2366, 2352, 2368, 2326, 32, 2360, 2361, 2360, 2366, 32,
      2346, 2381, 2352, 2340, 2381, 2351, 2375, 2325, 32, 2360, 2375, 2350, 2375, 2360, 2381,
      2335, 2352, 2330, 2381, 2351, 2366, 32, 2360, 2369, 2352, 2369, 2357, 2366, 2340, 2368,
      2354, 2366, 32, 2309, 2360, 2340, 2375, 46, 32, 2340, 2369, 2350, 2381, 2361, 2368, 32,
      2325, 2377, 2354, 2375, 2332, 32, 2346, 2379, 2352, 2381, 2335, 2354, 2342, 2381, 2357,
      2366, 2352, 2375, 32, 2321, 2344, 2354, 2366, 2311, 2344, 32, 2346, 2375, 2350, 2375,
      2306, 2335, 32, 2325, 2352, 2370, 32, 2358, 2325, 2340, 2366, 32, 2325, 2367, 2306, 2357,
      2366, 32, 2326, 2366, 2340, 2375, 32, 2325, 2366, 2352, 2381, 2351, 2366, 2354, 2351,
      2366, 2340, 32, 2332, 2366, 2314, 32, 2358, 2325, 2340, 2366, 46]"

definition fees_raj :: str where
  "fees_raj =
     [2358, 2369, 2354, 2381, 2325, 32, 2349, 2369, 2327, 2340, 2366, 2344, 32, 2352, 2368, 32,
      2309, 2306, 2340, 2367, 2350, 32, 2340, 2366, 2352, 2368, 2326, 32, 2360, 2366, 2350,
      2366, 2344, 2381, 2351, 2340, 2307, 32, 2361, 2352, 32, 2360, 2375, 2350, 2375, 2360,
      2381, 2335, 2352, 32, 2352, 2368, 32, 2358, 2369, 2352, 2369, 2310, 2340, 32, 2350, 2375,
      2306, 32, 2361, 2379, 2357, 2376, 2404, 32, 2341, 2375, 32, 2325, 2377, 2354, 2375, 2332,
      32, 2346, 2379, 2352, 2381, 2335, 2354, 32, 2352, 2375, 32, 2332, 2352, 2367, 2351, 2375,
      32, 2321, 2344, 2354, 2366, 2311, 2344, 32, 2349, 2369, 2327, 2340, 2366, 2344, 32, 2325,
      2352, 32, 2360, 2325, 2379, 32, 2351, 2366, 32, 2326, 2366, 2340, 2366, 32, 2325, 2366,
      2352, 2381, 2351, 2366, 2354, 2351, 32, 2332, 2366, 32, 2360, 2325, 2379, 2404]"

definition scholarships_en :: str where
  "scholarships_en =
     ustr ''Scholarship applications are available on the college website. Merit and need-based scholarships are offered. Submit documents before the deadline.''"

definition scholarships_hi :: str where
  "scholarships_hi =
     [2331, 2366, 2340, 2381, 2352, 2357, 2371, 2340, 2381, 2340, 2367, 32, 2325, 2375, 32,
      2354, 2367, 2319, 32, 2310, 2357, 2375, 2342, 2344, 32, 2325, 2377, 2354, 2375, 2332, 32,
      2325, 2368, 32, 2357, 2375, 2348, 2360, 2366, 2311, 2335, 32, 2346, 2352, 32, 2313, 2346,
      2354, 2348, 2381, 2343, 32, 2361, 2376, 2306, 2404, 32, 2351, 2379, 2327, 2381, 2351,
      2340, 2366, 32, 2324, 2352, 32, 2310, 2357, 2358, 2381, 2351, 2325, 2340, 2366, 32, 2310,
      2343, 2366, 2352, 2367, 2340, 32, 2331, 2366, 2340, 2381, 2352, 2357, 2371, 2340, 2381,
      2340, 2367, 32, 2313, 2346, 2354, 2348, 2381, 2343, 32, 2361, 2376, 2306, 2404, 32, 2309,
      2306, 2340, 2367, 2350, 32, 2340, 2367, 2341, 2367, 32, 2360, 2375, 32, 2346, 2361, 2354,
      2375, 32, 2342, 2360, 2381, 2340, 2366, 2357, 2375, 2332, 32, 2332, 2350, 2366, 32, 2325,
      2352, 2375, 2306, 2404]"

definition scholarships_gu :: str where
  "scholarships_gu =
     [2744, 2765, 2709, 2763, 2738, 2736, 2742, 2751, 2730, 32, 2734, 2750, 2719, 2759, 32,
      2693, 2736, 2716, 2752, 2707, 32, 2709, 2761, 2738, 2759, 2716, 2728, 2752, 32, 2741,
      2759, 2732, 2744, 2750, 2695, 2719, 32, 2730, 2736, 32, 2697, 2730, 2738, 2732, 2765,
      2727, 32, 2715, 2759, 46, 32, 2734, 2759, 2736, 2751, 2719, 32, 2693, 2728, 2759, 32,
      2716, 2736, 2754, 2736, 2751, 2735, 2750, 2724, 32, 2694, 2727, 2750, 2736, 2751, 2724,
      32, 2744, 2765, 2709, 2763, 2738, 2736, 2742, 2751, 2730, 32, 2707, 2731, 2736, 32, 2709,
      2736, 2741, 2750, 2734, 2750, 2690, 32, 2694, 2741, 2759, 32, 2715, 2759, 46, 32, 2693,
      2690, 2724, 2751, 2734, 32, 2724, 2750, 2736, 2752, 2710, 32, 2730, 2745, 2759, 2738,
      2750, 32, 2726, 2744, 2765, 2724, 2750, 2741, 2759, 2716, 2763, 32, 2744, 2732, 2734,
      2751, 2719, 32, 2709, 2736, 2763, 46]"

definition scholarships_mr :: str where
  "scholarships_mr =
     [2358, 2367, 2359, 2381, 2351, 2357, 2371, 2340, 2381, 2340, 2368, 2360, 2366, 2336, 2368,
      32, 2309, 2352, 2381, 2332, 32, 2325, 2377, 2354, 2375, 2332, 2330, 2381, 2351, 2366, 32,
      2357, 2375, 2348, 2360, 2366, 2311, 2335, 2357, 2352, 32, 2313, 2346, 2354, 2348, 2381,
      2343, 32, 2310, 2361, 2375, 2340, 46, 32, 2327, 2369, 2339, 2357, 2340, 2381, 2340, 2366,
      32, 2310, 2339, 2367, 32, 2327, 2352, 2332, 32, 2310, 2343, 2366, 2352, 2367, 2340, 32,
      2358, 2367, 2359, 2381, 2351, 2357, 2371, 2340, 2381, 2340, 2368, 32, 2342, 2367, 2354,
      2368, 32, 2332, 2366, 2340, 2375, 46, 32, 2358, 2375, 2357, 2335, 2330, 2381, 2351, 2366,
      32, 2340, 2366, 2352, 2326, 2375, 2346, 2370, 2352, 2381, 2357, 2368, 32, 2325, 2366,
      2327, 2342, 2346, 2340, 2381, 2352, 2375, 32, 2360, 2366, 2342, 2352, 32, 2325, 2352,
      2366, 46]"

definition scholarships_raj :: str where
  "scholarships_raj =
     [2331, 2366, 2340, 2381, 2352, 2357, 2371, 2340, 2381, 2340, 2367, 32, 2325, 2375, 32,
      2354, 2367, 2319, 32, 2310, 2357, 2375, 2342, 2344, 32, 2325, 2377, 2354, 2375, 2332, 32,
      2352, 2368, 32, 2357, 2375, 2348, 2360, 2366, 2311, 2335, 32, 2346, 2375, 32, 2313, 2346,
      2354, 2348, 2381, 2343, 32, 2361, 2376, 2404, 32, 2351, 2379, 2327, 2381, 2351, 2340,
      2366, 32, 2309, 2352, 32, 2327, 2352, 2332, 32, 2325, 2375, 32, 2310, 2343, 2366, 2352,
      32, 2346, 2375, 32, 2331, 2366, 2340, 2381, 2352, 2357, 2371, 2340, 2381, 2340, 2367, 32,
      2350, 2367, 2354, 2376, 2404, 32, 2309, 2306, 2340, 2367, 2350, 32, 2340, 2366, 2352,
      2368, 2326, 32, 2360, 2370, 2306, 32, 2346, 2376, 2354, 2368, 32, 2342, 2360, 2381, 2340,
      2366, 2357, 2375, 2332, 32, 2332, 2350, 2366, 32, 2325, 2352, 2379, 2404]"

definition timetable_en :: str where
  "timetable_en =
     ustr ''Timetables are updated on the college notice board and website. Check for any last-minute changes before attending classes.''"

definition timetable_hi :: str where
  "timetable_hi =
     [2360, 2350, 2351, 32, 2360, 2366, 2352, 2339, 2368, 32, 2325, 2377, 2354, 2375, 2332, 32,
      2325, 2375, 32, 2344, 2379, 2335, 2367, 2360, 32, 2348, 2379, 2352, 2381, 2337, 32, 2324,
      2352, 32, 2357, 2375, 2348, 2360, 2366, 2311, 2335, 32, 2346, 2352, 32, 2309, 2346, 2337,
      2375, 2335, 32, 2325, 2368, 32, 2332, 2366, 2340, 2368, 32, 2361, 2376, 2404, 32, 2325,
      2325, 2381, 2359, 2366, 32, 2350, 2375, 2306, 32, 2332, 2366, 2344, 2375, 32, 2360, 2375,
      32, 2346, 2361, 2354, 2375, 32, 2325, 2367, 2360, 2368, 32, 2349, 2368, 32, 2309, 2306,
      2340, 2367, 2350, 32, 2360, 2350, 2351, 32, 2325, 2375, 32, 2348, 2342, 2354, 2366, 2357,
      32, 2325, 2368, 32, 2332, 2366, 2306, 2330, 32, 2325, 2352, 2375, 2306, 2404]"

definition timetable_gu :: str where
  "timetable_gu =
     [2744, 2734, 2735, 2730, 2724, 2765, 2736, 2709, 32, 2709, 2761, 2738, 2759, 2716, 2728,
      2750, 32, 2728, 2763, 2719, 2751, 2744, 32, 2732, 2763, 2736, 2765, 2721, 32, 2693, 2728,
      2759, 32, 2741, 2759, 2732, 2744, 2750, 2695, 2719, 32, 2730, 2736, 32, 2693, 2730, 2721,
      2759, 2719, 32, 2709, 2736, 2741, 2750, 2734, 2750, 2690, 32, 2694, 2741, 2759, 32, 2715,
      2759, 46, 32, 2741, 2736, 2765, 2711, 2734, 2750, 2690, 32, 2745, 2750, 2716, 2736, 2752,
      32, 2694, 2730, 2724, 2750, 32, 2730, 2745, 2759, 2738, 2750, 32, 2709, 2763, 2696, 2730,
      2723, 32, 2715, 2759, 2738, 2765, 2738, 2752, 32, 2712, 2721, 2752, 2728, 2750, 32, 2731,
      2759, 2736, 2731, 2750, 2736, 2763, 32, 2734, 2750, 2719, 2759, 32, 2724, 2730, 2750,
      2744, 2763, 46]"

definition timetable_mr :: str where
  "timetable_mr =
     [2357, 2375, 2355, 2366, 2346, 2340, 2381, 2352, 2325, 32, 2325, 2377, 2354, 2375, 2332,
      2330, 2381, 2351, 2366, 32, 2344, 2379, 2335, 2368, 2360, 32, 2348, 2379, 2352, 2381,
      2337, 32, 2310, 2339, 2367, 32, 2357, 2375, 2348, 2360, 2366, 2311, 2335, 2357, 2352, 32,
      2309, 2346, 2337, 2375, 2335, 32, 2325, 2375, 2354, 2375, 32, 2332, 2366, 2340, 2375, 46,
      32, 2357, 2352, 2381, 2327, 2366, 2340, 32, 2332, 2366, 2339, 2381, 2351, 2366, 2346,
      2370, 2352, 2381, 2357, 2368, 32, 2358, 2375, 2357, 2335, 2330, 2381, 2351, 2366, 32,
      2325, 2381, 2359, 2339, 2368, 32, 2333, 2366, 2354, 2375, 2354, 2381, 2351, 2366, 32,
      2348, 2342, 2354, 2366, 2306, 2330, 2368, 32, 2340, 2346, 2366, 2360, 2339, 2368, 32,
      2325, 2352, 2366, 46]"

definition timetable_raj :: str where
  "timetable_raj =
     [2360, 2350, 2351, 32, 2360, 2366, 2352, 2339, 2368, 32, 2325, 2377, 2354, 2375, 2332, 32,
      2352, 2375, 32, 2344, 2379, 2335, 2367, 2360, 32, 2348, 2379, 2352, 2381, 2337, 32, 2309,
      2352, 32, 2357, 2375, 2348, 2360, 2366, 2311, 2335, 32, 2346, 2375, 32, 2309, 2346, 2337,
      2375, 2335, 32, 2361, 2379, 2357, 2376, 2404, 32, 2325, 2381, 2354, 2366, 2360, 32, 2350,
      2375, 2306, 32, 2332, 2366, 2357, 2339, 32, 2360, 2370, 2306, 32, 2346, 2376, 2354, 2368,
      32, 2325, 2379, 2312, 32, 2349, 2368, 32, 2309, 2306, 2340, 2367, 2350, 32, 2360, 2350,
      2351, 32, 2352, 2375, 32, 2348, 2342, 2354, 2366, 2357, 32, 2352, 2368, 32, 2332, 2366,
      2306, 2330, 32, 2325, 2352, 2379, 2404]"

definition admission_en :: str where
  "admission_en =
     ustr ''Admission applications are open from June to August. Check eligibility criteria, fill the online form, and submit required documents.''"

definition admission_hi :: str where
  "admission_hi =
     [2346, 2381, 2352, 2357, 2375, 2358, 32, 2310, 2357, 2375, 2342, 2344, 32, 2332, 2370,
      2344, 32, 2360, 2375, 32, 2309, 2327, 2360, 2381, 2340, 32, 2340, 2325, 32, 2326, 2369,
      2354, 2375, 32, 2352, 2361, 2340, 2375, 32, 2361, 2376, 2306, 2404, 32, 2346, 2366, 2340,
      2381, 2352, 2340, 2366, 32, 2350, 2366, 2344, 2342, 2306, 2337, 32, 2332, 2366, 2306,
      2330, 2375, 2306, 44, 32, 2321, 2344, 2354, 2366, 2311, 2344, 32, 2347, 2377, 2352, 2381,
      2350, 32, 2349, 2352, 2375, 2306, 32, 2324, 2352, 32, 2310, 2357, 2358, 2381, 2351, 2325,
      32, 2342, 2360, 2381, 2340, 2366, 2357, 2375, 2332, 32, 2332, 2350, 2366, 32, 2325, 2352,
      2375, 2306, 2404]"

definition admission_gu :: str where
  "admission_gu =
     [2730, 2765, 2736, 2741, 2759, 2742, 2728, 2752, 32, 2693, 2736, 2716, 2752, 2707, 32,
      2716, 2754, 2728, 2725, 2752, 32, 2707, 2711, 2744, 2765, 2719, 32, 2744, 2753, 2727,
      2752, 32, 2710, 2753, 2738, 2765, 2738, 2752, 32, 2715, 2759, 46, 32, 2730, 2750, 2724,
      2765, 2736, 2724, 2750, 2728, 2750, 32, 2734, 2750, 2730, 2726, 2690, 2721, 2763, 32,
      2724, 2730, 2750, 2744, 2763, 44, 32, 2707, 2728, 2738, 2750, 2695, 2728, 32, 2731, 2763,
      2736, 2765, 2734, 32, 2733, 2736, 2763, 32, 2693, 2728, 2759, 32, 2716, 2736, 2754, 2736,
      2752, 32, 2726, 2744, 2765, 2724, 2750, 2741, 2759, 2716, 2763, 32, 2744, 2732, 2734,
      2751, 2719, 32, 2709, 2736, 2763, 46]"

definition admission_mr :: str where
  "admission_mr =
     [2346, 2381, 2352, 2357, 2375, 2358, 32, 2309, 2352, 2381, 2332, 32, 2332, 2370, 2344, 32,
      2340, 2375, 32, 2321, 2327, 2360, 2381, 2335, 32, 2346, 2352, 2381, 2351, 2306, 2340, 32,
      2313, 2328, 2337, 2375, 32, 2310, 2361, 2375, 2340, 46, 32, 2346, 2366, 2340, 2381, 2352,
      2340, 2366, 32, 2344, 2367, 2325, 2359, 32, 2340, 2346, 2366, 2360, 2366, 44, 32, 2321,
      2344, 2354, 2366, 2311, 2344, 32, 2347, 2377, 2352, 2381, 2350, 32, 2349, 2352, 2366, 32,
      2310, 2339, 2367, 32, 2310, 2357, 2358, 2381, 2351, 2325, 32, 2325, 2366, 2327, 2342,
      2346, 2340, 2381, 2352, 2375, 32, 2360, 2366, 2342, 2352, 32, 2325, 2352, 2366, 46]"

definition admission_raj :: str where
  "admission_raj =
     [2346, 2381, 2352, 2357, 2375, 2358, 32, 2310, 2357, 2375, 2342, 2344, 32, 2332, 2370,
      2344, 32, 2360, 2370, 2306, 32, 2309, 2327, 2360, 2381, 2340, 32, 2340, 2325, 32, 2326,
      2369, 2354, 2375, 32, 2352, 2361, 2357, 2376, 32, 2361, 2376, 2306, 2404, 32, 2346, 2366,
      2340, 2381, 2352, 2340, 2366, 32, 2350, 2366, 2344, 2342, 2306, 2337, 32, 2342, 2375,
      2326, 2379, 44, 32, 2321, 2344, 2354, 2366, 2311, 2344, 32, 2347, 2377, 2352, 2381, 2350,
      32, 2349, 2352, 2379, 32, 2309, 2352, 32, 2332, 2352, 2370, 2352, 2368, 32, 2342, 2360,
      2381, 2340, 2366, 2357, 2375, 2332, 32, 2332, 2350, 2366, 32, 2325, 2352, 2379, 2404]"

definition exams_en :: str where
  "exams_en =
     ustr ''Exam schedules are published on the college website 2 weeks before exams. Results are declared within 30 days after completion.''"

definition exams_hi :: str where
  "exams_hi =
     [2346, 2352, 2368, 2325, 2381, 2359, 2366, 32, 2325, 2366, 2352, 2381, 2351, 2325, 2381,
      2352, 2350, 32, 2346, 2352, 2368, 2325, 2381, 2359, 2366, 32, 2360, 2375, 32, 50, 32,
      2360, 2346, 2381, 2340, 2366, 2361, 32, 2346, 2361, 2354, 2375, 32, 2325, 2377, 2354,
      2375, 2332, 32, 2325, 2368, 32, 2357, 2375, 2348, 2360, 2366, 2311, 2335, 32, 2346, 2352,
      32, 2346, 2381, 2352, 2325, 2366, 2358, 2367, 2340, 32, 2361, 2379, 2340, 2375, 32, 2361,
      2376, 2306, 2404, 32, 2346, 2352, 2367, 2339, 2366, 2350, 32, 2346, 2370, 2352, 2366, 32,
      2361, 2379, 2344, 2375, 32, 2325, 2375, 32, 51, 48, 32, 2342, 2367, 2344, 2379, 2306, 32,
      2325, 2375, 32, 2349, 2368, 2340, 2352, 32, 2328, 2379, 2359, 2367, 2340, 32, 2325, 2367,
      2319, 32, 2332, 2366, 2340, 2375, 32, 2361, 2376, 2306, 2404]"

definition exams_gu :: str where
  "exams_gu =
     [2730, 2736, 2752, 2709, 2765, 2743, 2750, 2728, 2753, 2690, 32, 2742, 2759, 2721, 2765,
      2735, 2754, 2738, 32, 2730, 2736, 2752, 2709, 2765, 2743, 2750, 2728, 2750, 32, 50, 32,
      2693, 2720, 2741, 2750, 2721, 2751, 2735, 2750, 32, 2730, 2745, 2759, 2738, 2750, 32,
      2709, 2761, 2738, 2759, 2716, 2728, 2752, 32, 2741, 2759, 2732, 2744, 2750, 2695, 2719,
      32, 2730, 2736, 32, 2730, 2765, 2736, 2709, 2750, 2742, 2751, 2724, 32, 2709, 2736, 2741,
      2750, 2734, 2750, 2690, 32, 2694, 2741, 2759, 32, 2715, 2759, 46, 32, 2730, 2736, 2751,
      2723, 2750, 2734, 2763, 32, 2730, 2754, 2736, 2765, 2723, 32, 2725, 2735, 2750, 2728,
      2750, 32, 51, 48, 32, 2726, 2751, 2741, 2744, 2728, 2752, 32, 2693, 2690, 2726, 2736, 32,
      2716, 2750, 2745, 2759, 2736, 32, 2709, 2736, 2741, 2750, 2734, 2750, 2690, 32, 2694,
      2741, 2759, 32, 2715, 2759, 46]"

definition exams_mr :: str where
  "exams_mr =
     [2346, 2352, 2368, 2325, 2381, 2359, 2375, 2330, 2375, 32, 2357, 2375, 2355, 2366, 2346,
      2340, 2381, 2352, 2325, 32, 2346, 2352, 2368, 2325, 2381, 2359, 2375, 2330, 2381, 2351,
      2366, 32, 50, 32, 2310, 2336, 2357, 2337, 2381, 2351, 2366, 2306, 2346, 2370, 2352, 2381,
      2357, 2368, 32, 2325, 2377, 2354, 2375, 2332, 2330, 2381, 2351, 2366, 32, 2357, 2375,
      2348, 2360, 2366, 2311, 2335, 2357, 2352, 32, 2346, 2381, 2352, 2325, 2366, 2358, 2367,
      2340, 32, 2325, 2375, 2354, 2375, 32, 2332, 2366, 2340, 2375, 46, 32, 2344, 2367, 2325,
      2366, 2354, 32, 2346, 2370, 2352, 2381, 2339, 32, 2333, 2366, 2354, 2381, 2351, 2366,
      2344, 2306, 2340, 2352, 32, 51, 48, 32, 2342, 2367, 2357, 2360, 2366, 2306, 2330, 2381,
      2351, 2366, 32, 2310, 2340, 32, 2332, 2366, 2361, 2368, 2352, 32, 2325, 2375, 2354, 2375,
      32, 2332, 2366, 2340, 2366, 2340, 46]"

definition exams_raj :: str where
  "exams_raj =
     [2346, 2352, 2368, 2325, 2381, 2359, 2366, 32, 2325, 2366, 2352, 2381, 2351, 2325, 2381,
      2352, 2350, 32, 2346, 2352, 2368, 2325, 2381, 2359, 2366, 32, 2360, 2370, 2306, 32, 50,
      32, 2361, 2347, 2381, 2340, 2366, 32, 2346, 2376, 2354, 2368, 32, 2325, 2377, 2354, 2375,
      2332, 32, 2352, 2368, 32, 2357, 2375, 2348, 2360, 2366, 2311, 2335, 32, 2346, 2375, 32,
      2331, 2346, 2357, 2366, 2357, 2376, 2404, 32, 2346, 2352, 2367, 2339, 2366, 2350, 32,
      2346, 2370, 2352, 2366, 32, 2361, 2379, 2357, 2339, 32, 2352, 2375, 32, 51, 48, 32, 2342,
      2367, 2344, 32, 2352, 2375, 32, 2309, 2306, 2342, 2352, 32, 2328, 2379, 2359, 2367, 2340,
      32, 2325, 2352, 2366, 2357, 2376, 2404]"

definition greetings_en :: str where
  "greetings_en =
     ustr ''Hello! I'm your campus assistant. I can help you with information about fees, scholarships, timetables, admissions, and exams. How can I help you today?''"

definition greetings_hi :: str where
  "greetings_hi =
     [2344, 2350, 2360, 2381, 2340, 2375, 33, 32, 2350, 2376, 2306, 32, 2310, 2346, 2325, 2366,
      32, 2325, 2376, 2306, 2346, 2360, 32, 2360, 2361, 2366, 2351, 2325, 32, 2361, 2370, 2306,
      2404, 32, 2350, 2376, 2306, 32, 2358, 2369, 2354, 2381, 2325, 44, 32, 2331, 2366, 2340,
      2381, 2352, 2357, 2371, 2340, 2381, 2340, 2367, 44, 32, 2360, 2350, 2351, 32, 2360, 2366,
      2352, 2339, 2368, 44, 32, 2346, 2381, 2352, 2357, 2375, 2358, 32, 2324, 2352, 32, 2346,
      2352, 2368, 2325, 2381, 2359, 2366, 32, 2325, 2375, 32, 2348, 2366, 2352, 2375, 32, 2350,
      2375, 2306, 32, 2332, 2366, 2344, 2325, 2366, 2352, 2368, 32, 2342, 2375, 32, 2360, 2325,
      2340, 2366, 32, 2361, 2370, 2306, 2404, 32, 2310, 2332, 32, 2350, 2376, 2306, 32, 2310,
      2346, 2325, 2368, 32, 2325, 2376, 2360, 2375, 32, 2350, 2342, 2342, 32, 2325, 2352, 32,
      2360, 2325, 2340, 2366, 32, 2361, 2370, 2306, 63]"

definition greetings_gu :: str where
  "greetings_gu =
     [2728, 2734, 2744, 2765, 2724, 2759, 33, 32, 2745, 2753, 2690, 32, 2724, 2734, 2750, 2736,
      2763, 32, 2709, 2759, 2734, 2765, 2730, 2744, 32, 2744, 2745, 2750, 2735, 2709, 32, 2715,
      2753, 2690, 46, 32, 2745, 2753, 2690, 32, 2731, 2752, 44, 32, 2744, 2765, 2709, 2763,
      2738, 2736, 2742, 2751, 2730, 44, 32, 2744, 2734, 2735, 2730, 2724, 2765, 2736, 2709, 44,
      32, 2730, 2765, 2736, 2741, 2759, 2742, 32, 2693, 2728, 2759, 32, 2730, 2736, 2752, 2709,
      2765, 2743, 2750, 2707, 32, 2741, 2751, 2742, 2759, 32, 2734, 2750, 2745, 2751, 2724,
      2752, 32, 2694, 2730, 2752, 32, 2742, 2709, 2753, 2690, 32, 2715, 2753, 2690, 46, 32,
      2694, 2716, 2759, 32, 2745, 2753, 2690, 32, 2724, 2734, 2728, 2759, 32, 2709, 2759, 2741,
      2752, 32, 2736, 2752, 2724, 2759, 32, 2734, 2726, 2726, 32, 2709, 2736, 2752, 32, 2742,
      2709, 2753, 2690, 63]"

definition greetings_mr :: str where
  "greetings_mr =
     [2344, 2350, 2360, 2381, 2325, 2366, 2352, 33, 32, 2350, 2368, 32, 2340, 2369, 2350, 2330,
      2366, 32, 2325, 2373, 2350, 2381, 2346, 2360, 32, 2360, 2361, 2366, 2351, 2381, 2351,
      2325, 32, 2310, 2361, 2375, 46, 32, 2350, 2368, 32, 2347, 2368, 44, 32, 2358, 2367, 2359,
      2381, 2351, 2357, 2371, 2340, 2381, 2340, 2368, 44, 32, 2357, 2375, 2355, 2366, 2346,
      2340, 2381, 2352, 2325, 44, 32, 2346, 2381, 2352, 2357, 2375, 2358, 32, 2310, 2339, 2367,
      32, 2346, 2352, 2368, 2325, 2381, 2359, 2366, 2306, 2348, 2342, 2381, 2342, 2354, 32,
      2350, 2366, 2361, 2367, 2340, 2368, 32, 2342, 2375, 2314, 32, 2358, 2325, 2340, 2379, 46,
      32, 2310, 2332, 32, 2350, 2368, 32, 2340, 2369, 2350, 2381, 2361, 2366, 2354, 2366, 32,
      2325, 2358, 2368, 32, 2350, 2342, 2340, 32, 2325, 2352, 2370, 32, 2358, 2325, 2340, 2379,
      63]"

definition greetings_raj :: str where
  "greetings_raj =
     [2344, 2350, 2360, 2381, 2340, 2375, 33, 32, 2350, 2376, 2306, 32, 2341, 2366, 2352, 2379,
      32, 2325, 2376, 2306, 2346, 2360, 32, 2360, 2361, 2366, 2351, 2325, 32, 2361, 2370, 2306,
      2404, 32, 2350, 2376, 2306, 32, 2358, 2369, 2354, 2381, 2325, 44, 32, 2331, 2366, 2340,
      2381, 2352, 2357, 2371, 2340, 2381, 2340, 2367, 44, 32, 2360, 2350, 2351, 32, 2360, 2366,
      2352, 2339, 2368, 44, 32, 2346, 2381, 2352, 2357, 2375, 2358, 32, 2309, 2352, 32, 2346,
      2352, 2368, 2325, 2381, 2359, 2366, 32, 2352, 2375, 32, 2348, 2366, 2352, 2375, 32, 2350,
      2375, 2306, 32, 2332, 2366, 2344, 2325, 2366, 2352, 2368, 32, 2342, 2375, 32, 2360, 2325,
      2370, 2306, 2404, 32, 2310, 2332, 32, 2350, 2376, 2306, 32, 2341, 2366, 2352, 2368, 32,
      2325, 2376, 2360, 2375, 32, 2350, 2342, 2342, 32, 2325, 2352, 32, 2360, 2325, 2370, 2306,
      63]"

definition fallback_en :: str where
  "fallback_en =
     ustr ''I'm not sure about that. Please contact our office during business hours (9 AM - 5 PM) at +91-XXX-XXX-XXXX or email info@college.edu for assistance.''"

definition fallback_hi :: str where
  "fallback_hi =
     [2350, 2369, 2333, 2375, 32, 2311, 2360, 2325, 2375, 32, 2348, 2366, 2352, 2375, 32, 2350,
      2375, 2306, 32, 2351, 2325, 2368, 2344, 32, 2344, 2361, 2368, 2306, 32, 2361, 2376, 2404,
      32, 2325, 2371, 2346, 2351, 2366, 32, 2357, 2381, 2351, 2366, 2357, 2360, 2366, 2351,
      2367, 2325, 32, 2328, 2306, 2335, 2379, 2306, 32, 40, 2360, 2369, 2348, 2361, 32, 57, 32,
      2348, 2332, 2375, 32, 45, 32, 2358, 2366, 2350, 32, 53, 32, 2348, 2332, 2375, 41, 32,
      2325, 2375, 32, 2342, 2380, 2352, 2366, 2344, 32, 2361, 2350, 2366, 2352, 2375, 32, 2325,
      2366, 2352, 2381, 2351, 2366, 2354, 2351, 32, 2360, 2375, 32, 43, 57, 49, 45, 88, 88, 88,
      45, 88, 88, 88, 45, 88, 88, 88, 88, 32, 2346, 2352, 32, 2360, 2306, 2346, 2352, 2381,
      2325, 32, 2325, 2352, 2375, 2306, 32, 2351, 2366, 32, 2360, 2361, 2366, 2351, 2340, 2366,
      32, 2325, 2375, 32, 2354, 2367, 2319, 32, 105, 110, 102, 111, 64, 99, 111, 108, 108, 101,
      103, 101, 46, 101, 100, 117, 32, 2346, 2352, 32, 2312, 2350, 2375, 2354, 32, 2325, 2352,
      2375, 2306, 2404]"

definition fallback_gu :: str where
  "fallback_gu =
     [2734, 2728, 2759, 32, 2724, 2759, 2728, 2750, 32, 2741, 2751, 2742, 2759, 32, 2710, 2750,
      2724, 2736, 2752, 32, 2728, 2725, 2752, 46, 32, 2709, 2755, 2730, 2750, 32, 2709, 2736,
      2752, 2728, 2759, 32, 2732, 2751, 2717, 2728, 2759, 2744, 32, 2693, 2741, 2736, 2765,
      2744, 32, 40, 2744, 2741, 2750, 2736, 2759, 32, 57, 32, 45, 32, 2744, 2750, 2690, 2716,
      2759, 32, 53, 41, 32, 2726, 2736, 2734, 2751, 2735, 2750, 2728, 32, 2693, 2734, 2750,
      2736, 2752, 32, 2707, 2731, 2751, 2744, 2728, 2763, 32, 2744, 2690, 2730, 2736, 2765,
      2709, 32, 2709, 2736, 2763, 32, 43, 57, 49, 45, 88, 88, 88, 45, 88, 88, 88, 45, 88, 88,
      88, 88, 32, 2693, 2725, 2741, 2750, 32, 2744, 2745, 2750, 2735, 2724, 2750, 32, 2734,
      2750, 2719, 2759, 32, 105, 110, 102, 111, 64, 99, 111, 108, 108, 101, 103, 101, 46, 101,
      100, 117, 32, 2730, 2736, 32, 2696, 2734, 2759, 2738, 32, 2709, 2736, 2763, 46]"

definition fallback_mr :: str where
  "fallback_mr =
     [2350, 2354, 2366, 32, 2340, 2381, 2351, 2366, 2348, 2342, 2381, 2342, 2354, 32, 2326,
      2366, 2340, 2381, 2352, 2368, 32, 2344, 2366, 2361, 2368, 46, 32, 2325, 2371, 2346, 2351,
      2366, 32, 2325, 2366, 2352, 2381, 2351, 2366, 2354, 2351, 2368, 2344, 32, 2357, 2375,
      2355, 2375, 2340, 32, 40, 2360, 2325, 2366, 2355, 2368, 32, 57, 32, 45, 32, 2360, 2306,
      2343, 2381, 2351, 2366, 2325, 2366, 2355, 2368, 32, 53, 41, 32, 2310, 2350, 2330, 2381,
      2351, 2366, 32, 2325, 2366, 2352, 2381, 2351, 2366, 2354, 2351, 2366, 2358, 2368, 32, 43,
      57, 49, 45, 88, 88, 88, 45, 88, 88, 88, 45, 88, 88, 88, 88, 32, 2357, 2352, 32, 2360,
      2306, 2346, 2352, 2381, 2325, 32, 2360, 2366, 2343, 2366, 32, 2325, 2367, 2306, 2357,
      2366, 32, 2350, 2342, 2340, 2368, 2360, 2366, 2336, 2368, 32, 105, 110, 102, 111, 64, 99,
      111, 108, 108, 101, 103, 101, 46, 101, 100, 117, 32, 2357, 2352, 32, 2312, 2350, 2375,
      2354, 32, 2325, 2352, 2366, 46]"

definition fallback_raj :: str where
  "fallback_raj =
     [2350, 2344, 2375, 32, 2311, 2360, 2325, 2375, 32, 2348, 2366, 2352, 2375, 32, 2350, 2375,
      2306, 32, 2346, 2325, 2381, 2325, 2366, 32, 2344, 2361, 2368, 2306, 32, 2361, 2376, 2404,
      32, 2325, 2371, 2346, 2351, 2366, 32, 2357, 2381, 2351, 2366, 2357, 2360, 2366, 2351,
      2367, 2325, 32, 2360, 2350, 2351, 32, 40, 2360, 2357, 2375, 2352, 2375, 32, 57, 32, 45,
      32, 2360, 2366, 2306, 2333, 32, 53, 41, 32, 2350, 2375, 2306, 32, 2361, 2350, 2366, 2352,
      2375, 32, 2325, 2366, 2352, 2381, 2351, 2366, 2354, 2351, 32, 2360, 2370, 2306, 32, 43,
      57, 49, 45, 88, 88, 88, 45, 88, 88, 88, 45, 88, 88, 88, 88, 32, 2346, 2375, 32, 2360,
      2306, 2346, 2352, 2381, 2325, 32, 2325, 2352, 2379, 32, 2351, 2366, 32, 2350, 2342, 2342,
      32, 2352, 2375, 32, 2354, 2367, 2319, 32, 105, 110, 102, 111, 64, 99, 111, 108, 108, 101,
      103, 101, 46, 101, 100, 117, 32, 2346, 2375, 32, 2312, 2350, 2375, 2354, 32, 2325, 2352,
      2379, 2404]"

text \<open>The dict that \<open>_get_default_knowledge_base\<close> returns.\<close>

definition get_default_knowledge_base :: knowledge_base where
  "get_default_knowledge_base =
     \<lparr>categories =
       [(ustr ''fees'',
         \<lparr>kb_keywords =
            [ustr ''fee'', ustr ''fees'', ustr ''payment'', ustr ''tuition'',
             [2358, 2369, 2354, 2381, 2325], [2347, 2368, 2360], [2731, 2752],
             [2358, 2369, 2354, 2381, 2325]],
          kb_responses =
            [(ustr ''en'', fees_en),
             (ustr ''hi'', fees_hi),
             (ustr ''gu'', fees_gu),
             (ustr ''mr'', fees_mr),
             (ustr ''raj'', fees_raj)]\<rparr>),
        (ustr ''scholarships'',
         \<lparr>kb_keywords =
            [ustr ''scholarship'', ustr ''scholarships'', ustr ''financial aid'',
             [2331, 2366, 2340, 2381, 2352, 2357, 2371, 2340, 2381, 2340, 2367],
             [2360, 2381, 2325, 2377, 2354, 2352, 2358, 2367, 2346],
             [2744, 2765, 2709, 2763, 2738, 2736, 2742, 2751, 2730],
             [2358, 2367, 2359, 2381, 2351, 2357, 2371, 2340, 2381, 2340, 2368]],
          kb_responses =
            [(ustr ''en'', scholarships_en),
             (ustr ''hi'', scholarships_hi),
             (ustr ''gu'', scholarships_gu),
             (ustr ''mr'', scholarships_mr),
             (ustr ''raj'', scholarships_raj)]\<rparr>),
        (ustr ''timetable'',
         \<lparr>kb_keywords =
            [ustr ''timetable'', ustr ''schedule'', ustr ''class'', ustr ''timing'',
             [2360, 2350, 2351, 32, 2360, 2366, 2352, 2339, 2368],
             [2335, 2366, 2311, 2350, 32, 2335, 2375, 2348, 2354], [2741, 2736, 2765, 2711],
             [2357, 2375, 2355, 2366, 2346, 2340, 2381, 2352, 2325]],
          kb_responses =
            [(ustr ''en'', timetable_en),
             (ustr ''hi'', timetable_hi),
             (ustr ''gu'', timetable_gu),
             (ustr ''mr'', timetable_mr),
             (ustr ''raj'', timetable_raj)]\<rparr>),
        (ustr ''admission'',
         \<lparr>kb_keywords =
            [ustr ''admission'', ustr ''admissions'', ustr ''apply'', ustr ''entrance'',
             [2346, 2381, 2352, 2357, 2375, 2358], [2342, 2366, 2326, 2367, 2354, 2366],
             [2730, 2765, 2736, 2741, 2759, 2742], [2346, 2381, 2352, 2357, 2375, 2358]],
          kb_responses =
            [(ustr ''en'', admission_en),
             (ustr ''hi'', admission_hi),
             (ustr ''gu'', admission_gu),
             (ustr ''mr'', admission_mr),
             (ustr ''raj'', admission_raj)]\<rparr>),
        (ustr ''exams'',
         \<lparr>kb_keywords =
            [ustr ''exam'', ustr ''exams'', ustr ''test'', ustr ''results'', ustr ''marks'',
             [2346, 2352, 2368, 2325, 2381, 2359, 2366],
             [2730, 2736, 2752, 2709, 2765, 2743, 2750],
             [2346, 2352, 2368, 2325, 2381, 2359, 2366]],
          kb_responses =
            [(ustr ''en'', exams_en),
             (ustr ''hi'', exams_hi),
             (ustr ''gu'', exams_gu),
             (ustr ''mr'', exams_mr),
             (ustr ''raj'', exams_raj)]\<rparr>)],
      greetings =
        \<lparr>kb_keywords =
           [ustr ''hello'', ustr ''hi'', ustr ''hey'', ustr ''namaste'',
            [2344, 2350, 2360, 2381, 2340, 2375], [2728, 2734, 2744, 2765, 2724, 2759],
            [2344, 2350, 2360, 2381, 2325, 2366, 2352]],
         kb_responses =
           [(ustr ''en'', greetings_en),
            (ustr ''hi'', greetings_hi),
            (ustr ''gu'', greetings_gu),
            (ustr ''mr'', greetings_mr),
            (ustr ''raj'', greetings_raj)]\<rparr>,
      contact =
        [(ustr ''office_hours'', ustr ''9:00 AM - 5:00 PM, Monday to Friday''),
         (ustr ''phone'', ustr ''+91-XXX-XXX-XXXX''),
         (ustr ''email'', ustr ''info@college.edu''),
         (ustr ''address'', ustr ''College Campus, City, State'')]\<rparr>"

subsection \<open>Matching\<close>

definition confidence_threshold :: real where
  "confidence_threshold = 0.6"

text \<open>
  The body of the inner loop of \<open>_find_best_match\<close> for one keyword (the direct match, then
  the fuzzy match), the inner loop over the keywords of one category, and the outer loop
  over the categories; the pair is \<open>(best_match, best_score)\<close>.
\<close>

definition score_keyword :: "lib \<Rightarrow> str \<Rightarrow> str \<Rightarrow> str \<Rightarrow> str option \<times> real \<Rightarrow> str option \<times> real" where
  "score_keyword l message_lower cat keyword best =
     (let best1 = (if contains message_lower keyword \<and> 0.8 > snd best
                   then (Some cat, 0.8) else best);
          similarity = seq_ratio l keyword message_lower
      in if similarity > 0.6 \<and> similarity > snd best1 then (Some cat, similarity) else best1)"

fun score_keywords :: "lib \<Rightarrow> str \<Rightarrow> str \<Rightarrow> str list \<Rightarrow> str option \<times> real \<Rightarrow> str option \<times> real" where
  "score_keywords l message_lower cat [] best = best"
| "score_keywords l message_lower cat (keyword # ks) best =
     score_keywords l message_lower cat ks (score_keyword l message_lower cat keyword best)"

fun score_categories ::
  "lib \<Rightarrow> str \<Rightarrow> (str \<times> kb_entry) list \<Rightarrow> str option \<times> real \<Rightarrow> str option \<times> real" where
  "score_categories l message_lower [] best = best"
| "score_categories l message_lower ((cat, data) # rest) best =
     score_categories l message_lower rest
       (score_keywords l message_lower cat (kb_keywords data) best)"

definition find_best_match :: "lib \<Rightarrow> knowledge_base \<Rightarrow> str \<Rightarrow> str \<Rightarrow> str \<times> real" where
  "find_best_match l kb message lang =
     (let message_lower = str_lower l message
      in if list_ex (\<lambda>keyword. contains message_lower keyword) (kb_keywords (greetings kb))
         then (ustr ''greetings'', 0.9)
         else case score_categories l message_lower (categories kb) (None, 0) of
                (best_match, best_score) \<Rightarrow>
                  ((case best_match of
                      None \<Rightarrow> ustr ''unknown''
                    | Some c \<Rightarrow> if c = [] then ustr ''unknown'' else c),
                   best_score))"

text \<open>
  What the scoring loops keep true of \<open>(best_match, best_score)\<close>: either nothing has
  matched and the score is 0, or a category has matched and the score is above 0.6 and,
  when the similarity ratio never exceeds 1, at most 1.
\<close>

definition scored :: "str option \<times> real \<Rightarrow> bool" where
  "scored best = (case best of (best_match, best_score) \<Rightarrow>
     (best_match = None \<and> best_score = 0) \<or> (best_match \<noteq> None \<and> 0.6 < best_score \<and> best_score \<le> 1))"

definition get_fallback_response :: "str \<Rightarrow> str" where
  "get_fallback_response lang =
     (case map_of [(ustr ''en'', fallback_en), (ustr ''hi'', fallback_hi), (ustr ''gu'', fallback_gu),
                   (ustr ''mr'', fallback_mr), (ustr ''raj'', fallback_raj)] lang of
        Some r \<Rightarrow> r
      | None \<Rightarrow> fallback_en)"

definition lookup_response :: "(str \<times> str) list \<Rightarrow> str \<Rightarrow> str" where
  "lookup_response rs lang =
     (case map_of rs lang of
        Some r \<Rightarrow> r
      | None \<Rightarrow>
          (case map_of rs (ustr ''en'') of
             Some r \<Rightarrow> r
           | None \<Rightarrow> ustr ''I'm sorry, I don't understand.''))"

definition get_response :: "knowledge_base \<Rightarrow> str \<Rightarrow> str \<Rightarrow> str" where
  "get_response kb cat lang =
     (if cat = ustr ''greetings'' then lookup_response (kb_responses (greetings kb)) lang
      else case map_of (categories kb) cat of
             Some data \<Rightarrow> lookup_response (kb_responses data) lang
           | None \<Rightarrow> get_fallback_response lang)"

subsection \<open>process_message\<close>

text \<open>
  The engine object: its knowledge base and the session contexts, a dict from session id
  to the context of that session. \<open>datetime_str\<close> is \<open>str(datetime.now())\<close>.
\<close>

record message_entry =
  user :: str
  entry_timestamp :: str
  bot :: "str option"

record session_context =
  messages :: "message_entry list"
  last_category :: "str option"
  context_language :: str

record engine =
  knowledge_base :: knowledge_base
  session_contexts :: "str \<rightharpoonup> session_context"

record match_result =
  response :: str
  confidence :: real
  category :: str
  needs_human :: bool
  result_contact :: "(str \<times> str) list option"

definition datetime_str :: "datetime \<Rightarrow> str" where
  "datetime_str t = date_isoformat t @ ustr '' '' @ format_time t"

definition init_engine :: "knowledge_base \<Rightarrow> engine" where
  "init_engine kb = \<lparr>knowledge_base = kb, session_contexts = Map.empty\<rparr>"

definition process_message ::
  "lib \<Rightarrow> datetime \<Rightarrow> engine \<Rightarrow> str \<Rightarrow> str \<Rightarrow> str \<Rightarrow> match_result \<times> engine" where
  "process_message l now self message sid lang =
     (let ctx0 = (case session_contexts self sid of
                    None \<Rightarrow> \<lparr>messages = [], last_category = None, context_language = lang\<rparr>
                  | Some c \<Rightarrow> c);
          entry = \<lparr>user = message, entry_timestamp = datetime_str now, bot = None\<rparr>;
          (cat, conf) = find_best_match l (knowledge_base self) message lang;
          (resp, nh) = (if conf < confidence_threshold
                        then (get_fallback_response lang, True)
                        else (get_response (knowledge_base self) cat lang, False));
          ctx1 = ctx0\<lparr>messages := messages ctx0 @ [entry\<lparr>bot := Some resp\<rparr>],
                      last_category := Some cat\<rparr>
      in (\<lparr>response = resp, confidence = conf, category = cat, needs_human = nh,
           result_contact = (if nh then Some (contact (knowledge_base self)) else None)\<rparr>,
          self\<lparr>session_contexts := (session_contexts self)(sid \<mapsto> ctx1)\<rparr>))"

section \<open>The chat endpoint (BACKEND/main.py)\<close>

text \<open>
  One request: the body (\<open>ChatMessage\<close>), what the request reads from its environment (a
  fresh \<open>uuid4\<close>, the clocks, and whether SQLite fails while logging), and the state of the
  process: the engine and the database. The answer is a \<open>ChatResponse\<close> or the
  \<open>HTTPException\<close> that the \<open>except Exception\<close> of the handler raises, with its status code
  and the exception it reports. \<open>suggested_contact\<close> is declared \<open>Optional[str]\<close>, so
  building the \<open>ChatResponse\<close> from a contact dict fails validation.
\<close>

record chat_message =
  message :: str
  message_session_id :: "str option"
  message_language :: "str option"

record chat_response =
  response_text :: str
  detected_language :: str
  response_session_id :: str
  response_confidence :: real
  response_needs_human :: bool
  suggested_contact :: "str option"

datatype http_error = HTTPException nat error

record request_env =
  uuid4 :: str
  engine_now :: datetime
  log_clock :: clock
  log_fault :: db_fault

record app_state =
  chatbot_engine :: engine
  database :: store

definition falsy :: "str option \<Rightarrow> bool" where
  "falsy v = (case v of None \<Rightarrow> True | Some s \<Rightarrow> s = [])"

definition chat ::
  "lib \<Rightarrow> request_env \<Rightarrow> chat_message \<Rightarrow> app_state \<Rightarrow> (http_error + chat_response) \<times> app_state" where
  "chat l env msg st =
     (let sid = (case message_session_id msg of
                   None \<Rightarrow> uuid4 env
                 | Some s \<Rightarrow> if s = [] then uuid4 env else s);
          detected_lang = (case message_language msg of
                             None \<Rightarrow> detect_language l (message msg)
                           | Some lang \<Rightarrow> if lang = [] then detect_language l (message msg) else lang);
          (response_data, engine') =
             process_message l (engine_now env) (chatbot_engine st) (message msg) sid detected_lang;
          run = log_conversation (log_fault env) (log_clock env) sid (message msg)
                  (response response_data) detected_lang (confidence response_data) None False
                  (database st);
          st' = \<lparr>chatbot_engine = engine', database = store_after (database st) run\<rparr>
      in case raised run of
           Some e \<Rightarrow> (Inl (HTTPException 500 e), st')
         | None \<Rightarrow>
             (case result_contact response_data of
                Some _ \<Rightarrow> (Inl (HTTPException 500 ValidationError), st')
              | None \<Rightarrow>
                  (Inr \<lparr>response_text = response response_data,
                        detected_language = detected_lang,
                        response_session_id = sid,
                        response_confidence = confidence response_data,
                        response_needs_human = needs_human response_data,
                        suggested_contact = None\<rparr>, st')))"

section \<open>Example inputs\<close>

text \<open>
  A session \<open>s1\<close> whose first turn, a greeting in English, is logged at 23:00 on
  15 January 2024 (the server's clock is UTC), and the store that call leaves.
\<close>

definition jan15_late :: datetime where
  "jan15_late = \<lparr>year = 2024, month = 1, day = 15, hour = 23, minute = 0, second = 0, microsecond = 0\<rparr>"

definition jan15_morning :: datetime where
  "jan15_morning = \<lparr>year = 2024, month = 1, day = 15, hour = 9, minute = 0, second = 0, microsecond = 0\<rparr>"

definition feb14_morning :: datetime where
  "feb14_morning = \<lparr>year = 2024, month = 2, day = 14, hour = 9, minute = 0, second = 0, microsecond = 0\<rparr>"

definition jan15_clock :: clock where
  "jan15_clock = \<lparr>utc_now = jan15_late, local_now = jan15_late\<rparr>"

definition first_turn :: log_run where
  "first_turn = log_conversation No_fault jan15_clock (ustr ''s1'') (ustr ''hello'') greetings_en
                  (ustr ''en'') 0.9 None False init_database"

text \<open>The same call when SQLite fails in the second block.\<close>

definition stats_fail_turn :: log_run where
  "stats_fail_turn = log_conversation Stats_block_fails jan15_clock (ustr ''s1'') (ustr ''hello'')
                       greetings_en (ustr ''en'') 0.9 None False init_database"

definition one_turn_store :: store where
  "one_turn_store = store_after init_database first_turn"

text \<open>Two turns of the same day, with confidences 0.8 and 0.4.\<close>

definition two_calls :: "(clock \<times> log_call) list" where
  "two_calls =
     [(jan15_clock,
       \<lparr>call_session_id = ustr ''s1'', call_user_message = ustr ''fee'', call_bot_response = fees_en,
        call_language = ustr ''en'', call_confidence = 0.8, call_category = None,
        call_needs_human = False\<rparr>),
      (jan15_clock,
       \<lparr>call_session_id = ustr ''s2'', call_user_message = ustr ''exm'', call_bot_response = exams_en,
        call_language = ustr ''en'', call_confidence = 0.4, call_category = None,
        call_needs_human = False\<rparr>)]"

subsection \<open>An instance of the library functions\<close>

text \<open>
  An instance of the library functions for the examples. \<open>ascii_lower\<close> is \<open>str.lower\<close> on
  ASCII text and \<open>ascii_word\<close> is \<open>\w\<close> on ASCII characters. \<open>block_ratio\<close> is the
  ratio \<open>2 * M / T\<close> of \<open>difflib\<close>, with \<open>M\<close> the total size of the matching blocks: the
  longest common block (the first in \<open>a\<close>, then the first in \<open>b\<close>), and the same again to
  its left and to its right. The detector of the instance guesses English for a text
  with an ASCII letter and raises \<open>LangDetectException\<close> for a text with none.
\<close>

definition ascii_lower :: "str \<Rightarrow> str" where
  "ascii_lower s = map (\<lambda>c. if 65 \<le> c \<and> c \<le> 90 then c + 32 else c) s"

definition ascii_letter :: "nat \<Rightarrow> bool" where
  "ascii_letter c = ((65 \<le> c \<and> c \<le> 90) \<or> (97 \<le> c \<and> c \<le> 122))"

definition ascii_word :: "nat \<Rightarrow> bool" where
  "ascii_word c = (ascii_letter c \<or> (48 \<le> c \<and> c \<le> 57) \<or> c = 95)"

fun common_prefix_len :: "str \<Rightarrow> str \<Rightarrow> nat" where
  "common_prefix_len (x # xs) (y # ys) = (if x = y then Suc (common_prefix_len xs ys) else 0)"
| "common_prefix_len xs ys = 0"

fun best_in_b :: "str \<Rightarrow> str \<Rightarrow> nat \<Rightarrow> nat \<times> nat \<Rightarrow> nat \<times> nat" where
  "best_in_b a [] j best = best"
| "best_in_b a (y # ys) j (bj, bk) =
     (let k = common_prefix_len a (y # ys)
      in best_in_b a ys (Suc j) (if k > bk then (j, k) else (bj, bk)))"

fun longest_match_from :: "str \<Rightarrow> str \<Rightarrow> nat \<Rightarrow> nat \<times> nat \<times> nat \<Rightarrow> nat \<times> nat \<times> nat" where
  "longest_match_from [] b i best = best"
| "longest_match_from (x # xs) b i (bi, bj, bk) =
     (case best_in_b (x # xs) b 0 (0, 0) of
        (j, k) \<Rightarrow> longest_match_from xs b (Suc i) (if k > bk then (i, j, k) else (bi, bj, bk)))"

definition find_longest_match :: "str \<Rightarrow> str \<Rightarrow> nat \<times> nat \<times> nat" where
  "find_longest_match a b = longest_match_from a b 0 (0, 0, 0)"

function matching_size :: "str \<Rightarrow> str \<Rightarrow> nat" where
  "matching_size a b =
     (case find_longest_match a b of
        (i, j, k) \<Rightarrow>
          if k = 0 \<or> length a < i + k \<or> length b < j + k then 0
          else k + matching_size (take i a) (take j b)
                 + matching_size (drop (i + k) a) (drop (j + k) b))"
  by pat_completeness auto
termination
  by (relation "measure (\<lambda>(a, b). length a)") auto

declare matching_size.simps [simp del]

definition block_ratio :: "str \<Rightarrow> str \<Rightarrow> real" where
  "block_ratio a b =
     (if length a + length b = 0 then 1
      else 2 * real (matching_size a b) / real (length a + length b))"

definition example_lib :: lib where
  "example_lib =
     \<lparr>lang_detect = (\<lambda>s. if list_ex ascii_letter s then Some (ustr ''en'') else None),
      re_word = ascii_word,
      str_lower = ascii_lower,
      seq_ratio = block_ratio\<rparr>"

text \<open>
  The answer of a fresh engine to a message that matches nothing, by language of the
  request.
\<close>

definition gibberish_result :: "str \<Rightarrow> match_result" where
  "gibberish_result lang =
     fst (process_message example_lib jan15_late (init_engine get_default_knowledge_base)
            (ustr ''xyz123 random gibberish'') (ustr ''s1'') lang)"

subsection \<open>A request\<close>

text \<open>
  A first request \<open>hello\<close> with no session id and no language, served by a fresh process,
  while SQLite fails in the first block of the logging call.
\<close>

definition hello_request :: chat_message where
  "hello_request = \<lparr>message = ustr ''hello'', message_session_id = None, message_language = None\<rparr>"

definition failing_env :: request_env where
  "failing_env = \<lparr>uuid4 = ustr ''u1'', engine_now = jan15_late, log_clock = jan15_clock,
                   log_fault = Turn_block_fails\<rparr>"

definition fresh_state :: app_state where
  "fresh_state = \<lparr>chatbot_engine = init_engine get_default_knowledge_base,
                   database = init_database\<rparr>"

section \<open>Evaluating the examples\<close>

lemmas format_simps = isoformat_def date_isoformat_def format_time_def sqlite_timestamp_def
  zero_pad_def digits.simps ustr_def today_def

lemmas calendar_simps = datetime_minus_days_def ymd2ord_def ord2ymd_def days_before_year_def
  days_before_month_def DAYS_BEFORE_MONTH_def DAYS_IN_MONTH_def is_leap_def Let_def

lemma jan15_stamp: "sqlite_timestamp (utc_now jan15_clock) = ustr ''2024-01-15 23:00:00''"
  by (simp add: jan15_clock_def jan15_late_def format_simps)

lemma jan15_today: "today jan15_clock = ustr ''2024-01-15''"
  by (simp add: jan15_clock_def jan15_late_def format_simps)

lemma first_turn_committed:
  "committed first_turn =
     [\<lparr>sessions = [\<lparr>session_id = ustr ''s1'', created_at = ustr ''2024-01-15 23:00:00'',
                     updated_at = ustr ''2024-01-15 23:00:00'', message_count = 1,
                     languages_used = json_dumps_list1 (ustr ''en'')\<rparr>],
       conversations = [\<lparr>conv_id = 1, conv_session_id = ustr ''s1'',
                     timestamp = ustr ''2024-01-15 23:00:00'', user_message = ustr ''hello'',
                     bot_response = greetings_en, language = ustr ''en'', conv_confidence = 0.9,
                     conv_category = None, conv_needs_human = False\<rparr>],
       daily_stats = [], conversations_seq = 1\<rparr>,
      \<lparr>sessions = [\<lparr>session_id = ustr ''s1'', created_at = ustr ''2024-01-15 23:00:00'',
                     updated_at = ustr ''2024-01-15 23:00:00'', message_count = 1,
                     languages_used = json_dumps_list1 (ustr ''en'')\<rparr>],
       conversations = [\<lparr>conv_id = 1, conv_session_id = ustr ''s1'',
                     timestamp = ustr ''2024-01-15 23:00:00'', user_message = ustr ''hello'',
                     bot_response = greetings_en, language = ustr ''en'', conv_confidence = 0.9,
                     conv_category = None, conv_needs_human = False\<rparr>],
       daily_stats = [\<lparr>date = ustr ''2024-01-15'', total_conversations = 1, total_sessions = 0,
                      languages_breakdown = [(ustr ''en'', 1)], categories_breakdown = [],
                      avg_confidence = 0.9, human_handoff_count = 0\<rparr>],
       conversations_seq = 1\<rparr>]"
  by (simp add: first_turn_def log_conversation_def Let_def jan15_stamp jan15_today
      init_database_def upsert_session_def insert_conversation_def update_daily_stats_def)

lemma one_turn_store_eq:
  "one_turn_store =
      \<lparr>sessions = [\<lparr>session_id = ustr ''s1'', created_at = ustr ''2024-01-15 23:00:00'',
                     updated_at = ustr ''2024-01-15 23:00:00'', message_count = 1,
                     languages_used = json_dumps_list1 (ustr ''en'')\<rparr>],
       conversations = [\<lparr>conv_id = 1, conv_session_id = ustr ''s1'',
                     timestamp = ustr ''2024-01-15 23:00:00'', user_message = ustr ''hello'',
                     bot_response = greetings_en, language = ustr ''en'', conv_confidence = 0.9,
                     conv_category = None, conv_needs_human = False\<rparr>],
       daily_stats = [\<lparr>date = ustr ''2024-01-15'', total_conversations = 1, total_sessions = 0,
                      languages_breakdown = [(ustr ''en'', 1)], categories_breakdown = [],
                      avg_confidence = 0.9, human_handoff_count = 0\<rparr>],
       conversations_seq = 1\<rparr>"
  by (simp add: one_turn_store_def store_after_def first_turn_committed)

lemma one_turn_store_reachable: "reachable one_turn_store"
proof -
  have "one_turn_store \<in> set (committed (log_conversation No_fault jan15_clock (ustr ''s1'')
          (ustr ''hello'') greetings_en (ustr ''en'') 0.9 None False init_database))"
    using first_turn_committed by (simp add: one_turn_store_eq first_turn_def)
  with reachable_init show ?thesis by (rule reachable_log)
qed

lemma feb14_cutoff: "datetime_minus_days feb14_morning 30 = Inr jan15_morning"
  by (simp add: feb14_morning_def jan15_morning_def calendar_simps)

lemma jan15_morning_iso: "isoformat jan15_morning = ustr ''2024-01-15T09:00:00''"
  by (simp add: jan15_morning_def format_simps)

lemma jan15_morning_date_iso: "date_isoformat jan15_morning = ustr ''2024-01-15''"
  by (simp add: jan15_morning_def format_simps)

section \<open>The store: lemmas\<close>

lemma find_map_same_key:
  assumes "\<And>r. date (g r) = date r"
  shows "find (\<lambda>r. date r = d) (map (\<lambda>r. if date r = d then g r else r) xs)
         = map_option g (find (\<lambda>r. date r = d) xs)"
  using assms by (induction xs) auto

lemma find_append_new:
  "find P xs = None \<Longrightarrow> P x \<Longrightarrow> find P (xs @ [x]) = Some x"
  by (induction xs) (auto split: if_splits)

lemma insert_conversation_daily_stats [simp]:
  "daily_stats (insert_conversation now sid um br lang conf cat nh s) = daily_stats s"
  by (simp add: insert_conversation_def)

lemma update_daily_stats_frame:
  assumes "update_daily_stats d lang cat conf nh s = Inr s'"
  shows "sessions s' = sessions s \<and> conversations s' = conversations s
         \<and> conversations_seq s' = conversations_seq s"
  using assms
  by (auto simp: update_daily_stats_def Let_def split: option.splits if_splits)

lemma update_daily_stats_new:
  assumes "get_daily_stats d s = None"
  shows "\<exists>s' r'. update_daily_stats d lang cat conf nh s = Inr s' \<and> get_daily_stats d s' = Some r'
           \<and> total_conversations r' = 1 \<and> avg_confidence r' = conf"
  using assms by (simp add: update_daily_stats_def get_daily_stats_def find_append_new)

lemma update_daily_stats_existing:
  assumes "get_daily_stats d s = Some r" and "total_conversations r + 1 \<noteq> 0"
  shows "\<exists>s' r'. update_daily_stats d lang cat conf nh s = Inr s' \<and> get_daily_stats d s' = Some r'
           \<and> total_conversations r' = total_conversations r + 1
           \<and> avg_confidence r' =
               (avg_confidence r * real_of_int (total_conversations r) + conf)
                 / real_of_int (total_conversations r + 1)"
  using assms
  by (simp add: update_daily_stats_def get_daily_stats_def Let_def find_map_same_key)

lemma update_daily_stats_has_row:
  assumes "update_daily_stats d lang cat conf nh s = Inr s'"
  shows "get_daily_stats d s' \<noteq> None"
proof (cases "get_daily_stats d s")
  case None
  from update_daily_stats_new [OF None, of lang cat conf nh] assms show ?thesis by auto
next
  case (Some r)
  from assms Some have "total_conversations r + 1 \<noteq> 0"
    by (auto simp: update_daily_stats_def get_daily_stats_def Let_def split: if_splits)
  from update_daily_stats_existing [OF Some this, of lang cat conf nh] assms show ?thesis by auto
qed

lemma run_log_call_new:
  assumes "get_daily_stats d s = None" and "today clk = d"
  shows "\<exists>r'. raised (run_log_call clk c s) = None
           \<and> get_daily_stats d (store_after s (run_log_call clk c s)) = Some r'
           \<and> total_conversations r' = 1 \<and> avg_confidence r' = call_confidence c"
proof -
  let ?now = "sqlite_timestamp (utc_now clk)"
  let ?s1 = "insert_conversation ?now (call_session_id c) (call_user_message c)
               (call_bot_response c) (call_language c) (call_confidence c) (call_category c)
               (call_needs_human c)
               (s\<lparr>sessions := upsert_session ?now (call_session_id c) (call_language c) (sessions s)\<rparr>)"
  have "get_daily_stats d ?s1 = None"
    using assms(1) by (simp add: get_daily_stats_def)
  from update_daily_stats_new [OF this, of "call_language c" "call_category c"
      "call_confidence c" "call_needs_human c"]
  obtain s' r' where
    "update_daily_stats d (call_language c) (call_category c) (call_confidence c)
       (call_needs_human c) ?s1 = Inr s'"
    and "get_daily_stats d s' = Some r'" "total_conversations r' = 1"
      "avg_confidence r' = call_confidence c"
    by blast
  then show ?thesis
    using assms(2) by (simp add: run_log_call_def log_conversation_def Let_def store_after_def)
qed

lemma run_log_call_existing:
  assumes "get_daily_stats d s = Some r" and "total_conversations r + 1 \<noteq> 0" and "today clk = d"
  shows "\<exists>r'. raised (run_log_call clk c s) = None
           \<and> get_daily_stats d (store_after s (run_log_call clk c s)) = Some r'
           \<and> total_conversations r' = total_conversations r + 1
           \<and> avg_confidence r' =
               (avg_confidence r * real_of_int (total_conversations r) + call_confidence c)
                 / real_of_int (total_conversations r + 1)"
proof -
  let ?now = "sqlite_timestamp (utc_now clk)"
  let ?s1 = "insert_conversation ?now (call_session_id c) (call_user_message c)
               (call_bot_response c) (call_language c) (call_confidence c) (call_category c)
               (call_needs_human c)
               (s\<lparr>sessions := upsert_session ?now (call_session_id c) (call_language c) (sessions s)\<rparr>)"
  have "get_daily_stats d ?s1 = Some r"
    using assms(1) by (simp add: get_daily_stats_def)
  from update_daily_stats_existing [OF this assms(2), of "call_language c" "call_category c"
      "call_confidence c" "call_needs_human c"]
  obtain s' r' where
    "update_daily_stats d (call_language c) (call_category c) (call_confidence c)
       (call_needs_human c) ?s1 = Inr s'"
    and "get_daily_stats d s' = Some r'" "total_conversations r' = total_conversations r + 1"
      "avg_confidence r' =
         (avg_confidence r * real_of_int (total_conversations r) + call_confidence c)
           / real_of_int (total_conversations r + 1)"
    by blast
  then show ?thesis
    using assms(3) by (simp add: run_log_call_def log_conversation_def Let_def store_after_def)
qed

lemma log_turns_existing:
  assumes "get_daily_stats d s = Some r" and "0 \<le> total_conversations r"
    and "list_all (\<lambda>(clk, c). today clk = d) calls"
  shows "\<exists>s' r'. log_turns calls s = Inr s' \<and> get_daily_stats d s' = Some r'
           \<and> total_conversations r' = total_conversations r + int (length calls)
           \<and> avg_confidence r' * real_of_int (total_conversations r')
               = avg_confidence r * real_of_int (total_conversations r)
                 + sum_list (map (\<lambda>(clk, c). call_confidence c) calls)"
  using assms
proof (induction calls arbitrary: s r)
  case Nil
  then show ?case by simp
next
  case (Cons a calls)
  obtain clk c where a: "a = (clk, c)" by (cases a)
  from Cons.prems a have td: "today clk = d"
    and rest: "list_all (\<lambda>(clk, c). today clk = d) calls"
    by simp_all
  from Cons.prems(2) have nz: "total_conversations r + 1 \<noteq> 0" by simp
  from run_log_call_existing [OF Cons.prems(1) nz td, of c]
  obtain r1 where r1: "raised (run_log_call clk c s) = None"
      "get_daily_stats d (store_after s (run_log_call clk c s)) = Some r1"
      "total_conversations r1 = total_conversations r + 1"
      "avg_confidence r1 =
         (avg_confidence r * real_of_int (total_conversations r) + call_confidence c)
           / real_of_int (total_conversations r + 1)"
    by blast
  have pos: "0 \<le> total_conversations r1" using r1(3) Cons.prems(2) by simp
  have prod: "avg_confidence r1 * real_of_int (total_conversations r1)
              = avg_confidence r * real_of_int (total_conversations r) + call_confidence c"
    using nz r1(3,4) by (simp add: field_simps)
  from Cons.IH [OF r1(2) pos rest]
  obtain s' r' where fin: "log_turns calls (store_after s (run_log_call clk c s)) = Inr s'"
      "get_daily_stats d s' = Some r'"
      "total_conversations r' = total_conversations r1 + int (length calls)"
      "avg_confidence r' * real_of_int (total_conversations r')
         = avg_confidence r1 * real_of_int (total_conversations r1)
           + sum_list (map (\<lambda>(clk, c). call_confidence c) calls)"
    by blast
  show ?case
    using fin r1(1,3) prod a by (simp add: Let_def)
qed

lemma log_turns_fresh:
  assumes "get_daily_stats d s = None" and "calls \<noteq> []"
    and "list_all (\<lambda>(clk, c). today clk = d) calls"
  shows "\<exists>s' row. log_turns calls s = Inr s' \<and> get_daily_stats d s' = Some row
           \<and> total_conversations row = int (length calls)
           \<and> avg_confidence row * real_of_int (total_conversations row)
               = sum_list (map (\<lambda>(clk, c). call_confidence c) calls)"
proof -
  from assms(2) obtain a rest where calls: "calls = a # rest" by (cases calls) auto
  obtain clk c where a: "a = (clk, c)" by (cases a)
  from assms(3) calls a have td: "today clk = d"
    and rest: "list_all (\<lambda>(clk, c). today clk = d) rest"
    by simp_all
  from run_log_call_new [OF assms(1) td, of c]
  obtain r1 where r1: "raised (run_log_call clk c s) = None"
      "get_daily_stats d (store_after s (run_log_call clk c s)) = Some r1"
      "total_conversations r1 = 1" "avg_confidence r1 = call_confidence c"
    by blast
  have pos: "0 \<le> total_conversations r1" using r1(3) by simp
  from log_turns_existing [OF r1(2) pos rest]
  obtain s' r' where fin: "log_turns rest (store_after s (run_log_call clk c s)) = Inr s'"
      "get_daily_stats d s' = Some r'"
      "total_conversations r' = total_conversations r1 + int (length rest)"
      "avg_confidence r' * real_of_int (total_conversations r')
         = avg_confidence r1 * real_of_int (total_conversations r1)
           + sum_list (map (\<lambda>(clk, c). call_confidence c) rest)"
    by blast
  show ?thesis
    using fin r1 calls a by (simp add: Let_def)
qed

lemma update_daily_stats_sessions_zero:
  assumes "update_daily_stats d lang cat conf nh s = Inr s'"
    and "list_all (\<lambda>r. total_sessions r = 0) (daily_stats s)"
  shows "list_all (\<lambda>r. total_sessions r = 0) (daily_stats s')"
  using assms
  by (auto simp: update_daily_stats_def Let_def list_all_iff split: option.splits if_splits)

lemma log_conversation_cases:
  assumes "s' \<in> set (committed (log_conversation fault clk sid um br lang conf cat nh s))"
    and "s1 = insert_conversation (sqlite_timestamp (utc_now clk)) sid um br lang conf cat nh
                (s\<lparr>sessions := upsert_session (sqlite_timestamp (utc_now clk)) sid lang (sessions s)\<rparr>)"
  shows "s' = s1 \<or> update_daily_stats (today clk) lang cat conf nh s1 = Inr s'"
  using assms
  by (auto simp: log_conversation_def Let_def split: if_splits sum.splits)

lemma log_conversation_sessions_zero:
  assumes "s' \<in> set (committed (log_conversation fault clk sid um br lang conf cat nh s))"
    and "list_all (\<lambda>r. total_sessions r = 0) (daily_stats s)"
  shows "list_all (\<lambda>r. total_sessions r = 0) (daily_stats s')"
proof -
  define s1 where "s1 = insert_conversation (sqlite_timestamp (utc_now clk)) sid um br lang conf cat nh
                (s\<lparr>sessions := upsert_session (sqlite_timestamp (utc_now clk)) sid lang (sessions s)\<rparr>)"
  have s1: "list_all (\<lambda>r. total_sessions r = 0) (daily_stats s1)"
    using assms(2) by (simp add: s1_def)
  from log_conversation_cases [OF assms(1) s1_def]
  show ?thesis
  proof
    assume "s' = s1"
    with s1 show ?thesis by simp
  next
    assume "update_daily_stats (today clk) lang cat conf nh s1 = Inr s'"
    from update_daily_stats_sessions_zero [OF this s1] show ?thesis .
  qed
qed

lemma cleanup_old_logs_sessions_zero:
  assumes "cleanup_old_logs now days s = Inr s'"
    and "list_all (\<lambda>r. total_sessions r = 0) (daily_stats s)"
  shows "list_all (\<lambda>r. total_sessions r = 0) (daily_stats s')"
  using assms
  by (auto simp: cleanup_old_logs_def Let_def list_all_iff split: sum.splits prod.splits)

section \<open>The store: claims\<close>

text \<open>
  C1. The claim: the session upsert, the turn insert and the daily-stat update of one call
  are one transaction, so that no reader sees the turn without its daily stat. The code
  commits twice. At the example call the first state committed holds the new turn and no
  daily_stats row for the day: the claim fails.
\<close>

theorem turn_visible_before_daily_stat:
  "\<exists>s' \<in> set (committed first_turn).
      length (conversations s') = 1 \<and> get_daily_stats (today jan15_clock) s' = None"
  by (simp add: first_turn_committed get_daily_stats_def)

text \<open>
  C1, amended. Every state a call commits holds the session upsert and the turn insert
  together. When SQLite fails in the first block nothing is committed and the store is as
  before. Otherwise the first state committed has the new turn and daily_stats as they
  were: a reader can see the turn without its daily stat. When SQLite fails in the second
  block that state stays: the call raises, the turn is stored and daily_stats are as
  before. A call that raises nothing commits a second state, the first with the daily
  statistics updated, which has a row for today. The daily stat never shows without the
  turn.
\<close>

theorem log_conversation_commits_twice:
  assumes "now = sqlite_timestamp (utc_now clk)"
    and "row = \<lparr>conv_id = conversations_seq s + 1, conv_session_id = sid, timestamp = now,
                user_message = um, bot_response = br, language = lang, conv_confidence = conf,
                conv_category = cat, conv_needs_human = nh\<rparr>"
    and "run = log_conversation fault clk sid um br lang conf cat nh s"
  shows "list_all (\<lambda>s'. sessions s' = upsert_session now sid lang (sessions s)
                        \<and> conversations s' = conversations s @ [row]) (committed run)
         \<and> (fault = Turn_block_fails \<longrightarrow>
               raised run = Some Sqlite_error \<and> committed run = [] \<and> store_after s run = s)
         \<and> (fault = Stats_block_fails \<longrightarrow>
               raised run = Some Sqlite_error \<and> length (committed run) = 1
               \<and> conversations (store_after s run) = conversations s @ [row]
               \<and> daily_stats (store_after s run) = daily_stats s)
         \<and> (fault = No_fault \<longrightarrow>
               committed run \<noteq> []
               \<and> conversations (hd (committed run)) = conversations s @ [row]
               \<and> daily_stats (hd (committed run)) = daily_stats s
               \<and> (raised run = None \<longrightarrow>
                     length (committed run) = 2
                     \<and> update_daily_stats (today clk) lang cat conf nh (hd (committed run))
                         = Inr (store_after s run)
                     \<and> get_daily_stats (today clk) (store_after s run) \<noteq> None))"
proof -
  define s1 where "s1 = insert_conversation now sid um br lang conf cat nh
                          (s\<lparr>sessions := upsert_session now sid lang (sessions s)\<rparr>)"
  have s1: "sessions s1 = upsert_session now sid lang (sessions s)"
      "conversations s1 = conversations s @ [row]" "daily_stats s1 = daily_stats s"
    by (simp_all add: s1_def insert_conversation_def assms(2))
  show ?thesis
  proof (cases fault)
    case Turn_block_fails
    then show ?thesis
      by (simp add: assms(3) log_conversation_def store_after_def)
  next
    case Stats_block_fails
    then have "run = \<lparr>raised = Some Sqlite_error, committed = [s1]\<rparr>"
      by (simp add: assms(1,3) log_conversation_def Let_def s1_def)
    with s1 Stats_block_fails show ?thesis
      by (simp add: store_after_def)
  next
    case No_fault
    show ?thesis
    proof (cases "update_daily_stats (today clk) lang cat conf nh s1")
      case (Inl e)
      with No_fault have "run = \<lparr>raised = Some e, committed = [s1]\<rparr>"
        by (simp add: assms(1,3) log_conversation_def Let_def s1_def)
      with s1 No_fault show ?thesis by simp
    next
      case (Inr s2)
      with No_fault have run: "run = \<lparr>raised = None, committed = [s1, s2]\<rparr>"
        by (simp add: assms(1,3) log_conversation_def Let_def s1_def)
      from update_daily_stats_frame [OF Inr] s1
      have s2: "sessions s2 = upsert_session now sid lang (sessions s)"
          "conversations s2 = conversations s @ [row]"
        by simp_all
      from update_daily_stats_has_row [OF Inr] have "get_daily_stats (today clk) s2 \<noteq> None" .
      with run s1 s2 Inr No_fault show ?thesis
        by (simp add: store_after_def)
    qed
  qed
qed

theorem log_conversation_commits_twice_witness:
  "raised first_turn = None
   \<and> length (committed first_turn) = 2
   \<and> length (conversations (hd (committed first_turn))) = 1
   \<and> daily_stats (hd (committed first_turn)) = []
   \<and> last (committed first_turn) = one_turn_store
   \<and> get_daily_stats (today jan15_clock) one_turn_store \<noteq> None
   \<and> raised stats_fail_turn = Some Sqlite_error
   \<and> length (committed stats_fail_turn) = 1
   \<and> length (conversations (store_after init_database stats_fail_turn)) = 1
   \<and> daily_stats (store_after init_database stats_fail_turn) = []"
proof -
  have r: "raised first_turn = None"
    by (simp add: first_turn_def log_conversation_def Let_def update_daily_stats_def
        init_database_def)
  note ok = log_conversation_commits_twice [OF refl refl first_turn_def]
  note failing = log_conversation_commits_twice [OF refl refl stats_fail_turn_def]
  from ok r have a: "length (committed first_turn) = 2"
      "length (conversations (hd (committed first_turn))) = 1"
      "daily_stats (hd (committed first_turn)) = []"
      "get_daily_stats (today jan15_clock) (store_after init_database first_turn) \<noteq> None"
    by (simp_all add: init_database_def)
  from failing have b: "raised stats_fail_turn = Some Sqlite_error"
      "length (committed stats_fail_turn) = 1"
      "length (conversations (store_after init_database stats_fail_turn)) = 1"
      "daily_stats (store_after init_database stats_fail_turn) = []"
    by (simp_all add: init_database_def)
  have c: "last (committed first_turn) = one_turn_store"
    using a(1) by (cases "committed first_turn") (simp_all add: one_turn_store_def store_after_def)
  from r a b c show ?thesis
    by (simp add: one_turn_store_def)
qed

text \<open>
  C2. After \<open>N\<close> calls on one calendar date \<open>d\<close>, from a store with no daily_stats row for
  \<open>d\<close>, no call has raised, the row of \<open>d\<close> counts \<open>N\<close> conversations and its average times
  that count is the sum of the confidences logged. On a row that exists the update sets the
  average to \<open>(old_avg * old_count + new_confidence) / (old_count + 1)\<close>. Confidences are
  real numbers here, so the equations are exact.
\<close>

theorem daily_average_invariant:
  "(get_daily_stats d s = None \<and> calls \<noteq> [] \<and> list_all (\<lambda>(clk, c). today clk = d) calls \<longrightarrow>
      (\<exists>s' row. log_turns calls s = Inr s' \<and> get_daily_stats d s' = Some row
         \<and> total_conversations row = int (length calls)
         \<and> avg_confidence row * real_of_int (total_conversations row)
             = sum_list (map (\<lambda>(clk, c). call_confidence c) calls)))
   \<and> (get_daily_stats d s = Some r \<and> total_conversations r + 1 \<noteq> 0 \<longrightarrow>
      (\<exists>s' r'. update_daily_stats d lang cat conf nh s = Inr s' \<and> get_daily_stats d s' = Some r'
         \<and> total_conversations r' = total_conversations r + 1
         \<and> avg_confidence r' =
             (avg_confidence r * real_of_int (total_conversations r) + conf)
               / real_of_int (total_conversations r + 1)))"
  using log_turns_fresh [of d s calls] update_daily_stats_existing [of d s r lang cat conf nh]
  by blast

theorem daily_average_invariant_witness:
  "(\<exists>s' row. log_turns two_calls init_database = Inr s'
       \<and> get_daily_stats (ustr ''2024-01-15'') s' = Some row
       \<and> total_conversations row = 2 \<and> avg_confidence row * 2 = 0.8 + 0.4)
   \<and> (\<exists>s' r'. update_daily_stats (ustr ''2024-01-15'') (ustr ''en'') None 0.3 False one_turn_store = Inr s'
       \<and> get_daily_stats (ustr ''2024-01-15'') s' = Some r'
       \<and> total_conversations r' = 2 \<and> avg_confidence r' = (0.9 * 1 + 0.3) / 2)"
proof -
  have fresh: "get_daily_stats (ustr ''2024-01-15'') init_database = None"
    by (simp add: get_daily_stats_def init_database_def)
  have same_day: "list_all (\<lambda>(clk, c). today clk = ustr ''2024-01-15'') two_calls"
    by (simp add: two_calls_def jan15_today)
  have nonempty: "two_calls \<noteq> []"
    by (simp add: two_calls_def)
  define row0 where
    "row0 = \<lparr>date = ustr ''2024-01-15'', total_conversations = 1, total_sessions = 0,
              languages_breakdown = [(ustr ''en'', 1)], categories_breakdown = [],
              avg_confidence = 0.9, human_handoff_count = 0\<rparr>"
  have row: "get_daily_stats (ustr ''2024-01-15'') one_turn_store = Some row0"
    by (simp add: get_daily_stats_def one_turn_store_eq row0_def)
  have nz: "total_conversations row0 + 1 \<noteq> 0"
    by (simp add: row0_def)
  have sum: "sum_list (map (\<lambda>(clk, c). call_confidence c) two_calls) = 0.8 + 0.4"
    by (simp add: two_calls_def)
  have len: "int (length two_calls) = 2"
    by (simp add: two_calls_def)
  from daily_average_invariant [of "ustr ''2024-01-15''" init_database two_calls]
    fresh same_day nonempty sum len
  have first: "\<exists>s' row. log_turns two_calls init_database = Inr s'
       \<and> get_daily_stats (ustr ''2024-01-15'') s' = Some row
       \<and> total_conversations row = 2 \<and> avg_confidence row * 2 = 0.8 + 0.4"
    by auto
  from daily_average_invariant [of "ustr ''2024-01-15''" one_turn_store "[]" row0
      "ustr ''en''" None "0.3" False] row nz
  have "\<exists>s' r'. update_daily_stats (ustr ''2024-01-15'') (ustr ''en'') None 0.3 False one_turn_store = Inr s'
       \<and> get_daily_stats (ustr ''2024-01-15'') s' = Some r'
       \<and> total_conversations r' = total_conversations row0 + 1
       \<and> avg_confidence r' =
           (avg_confidence row0 * real_of_int (total_conversations row0) + 0.3)
             / real_of_int (total_conversations row0 + 1)"
    by blast
  then have second: "\<exists>s' r'. update_daily_stats (ustr ''2024-01-15'') (ustr ''en'') None 0.3 False one_turn_store = Inr s'
       \<and> get_daily_stats (ustr ''2024-01-15'') s' = Some r'
       \<and> total_conversations r' = 2 \<and> avg_confidence r' = (0.9 * 1 + 0.3) / 2"
    by (simp add: row0_def)
  from first second show ?thesis by blast
qed

text \<open>
  C8, at its failing input. Session \<open>s1\<close> has used \<open>en\<close>, so its languages_used is the
  text \<open>["en"]\<close>. A turn of the session in a language given as \<open>e\<close> leaves the text as it
  was: the \<open>LIKE\<close> of the upsert finds \<open>e\<close> inside the text, although \<open>e\<close> is not a member
  of the list.
\<close>

theorem languages_used_substring_not_added:
  "map languages_used (sessions one_turn_store) = [json_dumps_list1 (ustr ''en'')]
   \<and> map languages_used (sessions (store_after one_turn_store
        (log_conversation No_fault jan15_clock (ustr ''s1'') (ustr ''hello'') greetings_en
           (ustr ''e'') 0.9 None False one_turn_store)))
     = [json_dumps_list1 (ustr ''en'')]"
  by (simp add: one_turn_store_eq log_conversation_def Let_def jan15_stamp jan15_today
      store_after_def upsert_session_def insert_conversation_def update_daily_stats_def
      json_dumps_list1_def json_extract_root_def py_json_escape_def json_escape_common_def ustr_def)

text \<open>
  C9, at its failing input. The only turn of the store was logged at 23:00 on 15 January.
  A cleanup run at 09:00 on 14 February with 30 days to keep has its cutoff at 09:00 on
  15 January, fourteen hours before the turn. It deletes the turn, and with it the
  session: the stored text \<open>2024-01-15 23:00:00\<close> is below the cutoff's text
  \<open>2024-01-15T09:00:00\<close>, a space being below \<open>T\<close>.
\<close>

theorem cleanup_deletes_turn_newer_than_cutoff:
  "datetime_minus_days feb14_morning 30 = Inr jan15_morning
   \<and> map timestamp (conversations one_turn_store) = [sqlite_timestamp jan15_late]
   \<and> cleanup_old_logs feb14_morning 30 one_turn_store
       = Inr (one_turn_store\<lparr>sessions := [], conversations := []\<rparr>)"
proof -
  have "sqlite_timestamp jan15_late = ustr ''2024-01-15 23:00:00''"
    by (simp add: jan15_late_def format_simps)
  moreover have "cleanup_old_logs feb14_morning 30 one_turn_store
       = Inr (one_turn_store\<lparr>sessions := [], conversations := []\<rparr>)"
    by (simp add: cleanup_old_logs_def feb14_cutoff jan15_morning_iso jan15_morning_date_iso
        one_turn_store_eq) (simp add: ustr_def)
  ultimately show ?thesis
    by (simp add: feb14_cutoff one_turn_store_eq)
qed

text \<open>
  C10. In every store state reachable from the empty database, every daily_stats row has
  total_sessions 0.
\<close>

theorem total_sessions_always_zero:
  "reachable s \<Longrightarrow> list_all (\<lambda>r. total_sessions r = 0) (daily_stats s)"
proof (induction rule: reachable.induct)
  case reachable_init
  show ?case by (simp add: init_database_def)
next
  case (reachable_log s s' fault clk sid user_msg bot_resp lang conf cat nh)
  from log_conversation_sessions_zero [OF reachable_log.hyps(2) reachable_log.IH]
  show ?case .
next
  case (reachable_cleanup s now days_to_keep s')
  from cleanup_old_logs_sessions_zero [OF reachable_cleanup.hyps(2) reachable_cleanup.IH]
  show ?case .
qed

theorem total_sessions_always_zero_witness:
  "reachable one_turn_store \<and> length (daily_stats one_turn_store) = 1
   \<and> list_all (\<lambda>r. total_sessions r = 0) (daily_stats one_turn_store)"
  using total_sessions_always_zero [OF one_turn_store_reachable] one_turn_store_reachable
  by (simp add: one_turn_store_eq)

section \<open>The example library: lemmas\<close>

lemma matching_size_le: "matching_size a b \<le> min (length a) (length b)"
proof (induction a b rule: matching_size.induct)
  case (1 a b)
  obtain i j k where m: "find_longest_match a b = (i, j, k)"
    by (cases "find_longest_match a b")
  show ?case
  proof (cases "k = 0 \<or> length a < i + k \<or> length b < j + k")
    case True
    then show ?thesis using m by (simp add: matching_size.simps)
  next
    case False
    define L where "L = matching_size (take i a) (take j b)"
    define R where "R = matching_size (drop (i + k) a) (drop (j + k) b)"
    from 1(1) [OF m [symmetric] refl False]
    have "L \<le> min (length (take i a)) (length (take j b))"
      by (simp add: L_def)
    then have l: "L \<le> i" "L \<le> j" by simp_all
    from 1(2) [OF m [symmetric] refl False]
    have "R \<le> min (length (drop (i + k) a)) (length (drop (j + k) b))"
      by (simp add: R_def)
    then have r: "R \<le> length a - (i + k)" "R \<le> length b - (j + k)" by simp_all
    have eq: "matching_size a b = k + L + R"
      using m False by (subst matching_size.simps) (simp add: L_def R_def)
    from False l r have "k + L + R \<le> length a" "k + L + R \<le> length b"
      by arith+
    then show ?thesis
      unfolding eq by simp
  qed
qed

lemma block_ratio_bound:
  "block_ratio a b \<le> 1
   \<and> block_ratio a b * real (length a + length b) \<le> 2 * real (min (length a) (length b))"
proof (cases "length a + length b = 0")
  case True
  then show ?thesis by (simp add: block_ratio_def)
next
  case False
  have m: "real (matching_size a b) \<le> real (min (length a) (length b))"
    using matching_size_le [of a b] by (simp only: of_nat_le_iff)
  have "2 * real (min (length a) (length b)) \<le> real (length a + length b)"
    by simp
  with m False show ?thesis
    by (simp add: block_ratio_def divide_le_eq)
qed

lemma example_lib_lower:
  "str_lower example_lib (ustr ''What is the fee deadline?'') = ustr ''what is the fee deadline?''"
  by (simp add: example_lib_def ascii_lower_def ustr_def)

lemma example_lib_ratio:
  "\<forall>a b. seq_ratio example_lib a b \<le> 1
         \<and> seq_ratio example_lib a b * real (length a + length b)
             \<le> 2 * real (min (length a) (length b))"
  using block_ratio_bound by (simp add: example_lib_def)

section \<open>The language identifier: lemmas and claims\<close>

lemma pattern_based_detection_codes:
  assumes "pattern_based_detection l s = Some lang"
  shows "lang \<in> {ustr ''hi'', ustr ''gu'', ustr ''mr'', ustr ''raj''}"
proof -
  from assms obtain ps where
    "find (\<lambda>(lang, patterns). list_ex (\<lambda>p. re_search l p s) patterns) language_patterns
       = Some (lang, ps)"
    by (auto simp: pattern_based_detection_def split: option.splits)
  then have "(lang, ps) \<in> set language_patterns"
    by (auto simp: find_Some_iff in_set_conv_nth)
  then show ?thesis
    by (auto simp: language_patterns_def)
qed

lemma pattern_codes_supported:
  "lang \<in> {ustr ''hi'', ustr ''gu'', ustr ''mr'', ustr ''raj''} \<Longrightarrow> is_supported_language lang"
  by (auto simp: is_supported_language_def language_map_def)

lemma language_map_supported:
  "map_of language_map detected = Some code \<Longrightarrow> is_supported_language code"
  by (auto simp: is_supported_language_def language_map_def split: if_splits)

lemma map_similar_language_supported: "is_supported_language (map_similar_language detected)"
  by (auto simp: is_supported_language_def language_map_def map_similar_language_def ustr_def)

lemma en_supported: "is_supported_language (ustr ''en'')"
  by (simp add: is_supported_language_def language_map_def)

lemma detect_language_supported: "is_supported_language (detect_language l s)"
proof (cases "s = [] \<or> length (strip s) < 3")
  case True
  then show ?thesis by (simp add: detect_language_def en_supported)
next
  case False
  show ?thesis
  proof (cases "pattern_based_detection l s")
    case (Some lang)
    from pattern_codes_supported [OF pattern_based_detection_codes [OF Some]] False Some
    show ?thesis by (simp add: detect_language_def)
  next
    case None
    show ?thesis
    proof (cases "lang_detect l s")
      case no_guess: None
      with False None show ?thesis by (simp add: detect_language_def en_supported)
    next
      case (Some detected)
      show ?thesis
      proof (cases "map_of language_map detected")
        case unmapped: None
        with False \<open>pattern_based_detection l s = None\<close> Some show ?thesis
          by (simp add: detect_language_def map_similar_language_supported)
      next
        case (Some code)
        with False \<open>pattern_based_detection l s = None\<close> \<open>lang_detect l s = Some detected\<close>
        show ?thesis
          by (simp add: detect_language_def language_map_supported)
      qed
    qed
  qed
qed

text \<open>
  C7. The claim: \<open>detect\<close> returns the default code for every input with fewer than 3
  non-whitespace characters. The text of the two Devanagari letters KA and KHA with a space
  between them has 2 non-whitespace characters, and whatever the library functions do,
  \<open>detect_language\<close> returns \<open>hi\<close> for it: stripped of the whitespace at its ends the text
  has 3 characters, and the Devanagari range matches.
\<close>

theorem detect_language_two_letters_not_default:
  "\<forall>l. length (filter (\<lambda>c. \<not> isspace c) [2325, 32, 2326]) < 3
       \<and> detect_language l [2325, 32, 2326] = ustr ''hi''
       \<and> ustr ''hi'' \<noteq> ustr ''en''"
  by (simp add: detect_language_def strip_def isspace_def pattern_based_detection_def
      language_patterns_def ustr_def)

text \<open>
  C7, amended. \<open>detect_language\<close> returns a supported code for every text and every
  behaviour of the libraries. It returns the default code \<open>en\<close> for every text that has
  fewer than 3 characters once the whitespace at its two ends is stripped, so for the
  empty text, for \<open>" "\<close> and for \<open>"ab"\<close>; and it returns \<open>en\<close> when no pattern matches and
  the statistical detector raises \<open>LangDetectException\<close>.
\<close>

theorem detect_language_total:
  "is_supported_language (detect_language l s)
   \<and> (length (strip s) < 3 \<longrightarrow> detect_language l s = ustr ''en'')
   \<and> detect_language l [] = ustr ''en''
   \<and> detect_language l (ustr '' '') = ustr ''en''
   \<and> detect_language l (ustr ''ab'') = ustr ''en''
   \<and> (pattern_based_detection l s = None \<and> lang_detect l s = None \<longrightarrow>
        detect_language l s = ustr ''en'')"
proof -
  have "detect_language l (ustr '' '') = ustr ''en''"
    by (simp add: detect_language_def strip_def isspace_def ustr_def)
  moreover have "detect_language l (ustr ''ab'') = ustr ''en''"
    by (simp add: detect_language_def strip_def isspace_def ustr_def)
  ultimately show ?thesis
    using detect_language_supported [of l s] by (simp add: detect_language_def)
qed

theorem detect_language_total_witness:
  "is_supported_language (detect_language example_lib (ustr ''What is the fee deadline?''))
   \<and> length (strip (ustr '' a b  '')) = 3
   \<and> length (strip (ustr ''  ab '')) < 3
   \<and> detect_language example_lib (ustr ''  ab '') = ustr ''en''
   \<and> pattern_based_detection example_lib (ustr ''12345'') = None
   \<and> lang_detect example_lib (ustr ''12345'') = None
   \<and> detect_language example_lib (ustr ''12345'') = ustr ''en''"
proof -
  have short: "length (strip (ustr ''  ab '')) < 3" "length (strip (ustr '' a b  '')) = 3"
    by (simp_all add: strip_def isspace_def ustr_def)
  have no_pattern: "pattern_based_detection example_lib (ustr ''12345'') = None"
    by (simp add: pattern_based_detection_def language_patterns_def words_match_here_def ustr_def)
  have raises: "lang_detect example_lib (ustr ''12345'') = None"
    by (simp add: example_lib_def ascii_letter_def ustr_def)
  from detect_language_total [of example_lib "ustr ''What is the fee deadline?''"]
    detect_language_total [of example_lib "ustr ''  ab ''"]
    detect_language_total [of example_lib "ustr ''12345''"]
    short no_pattern raises
  show ?thesis by simp
qed

section \<open>The classification engine: lemmas and claims\<close>

lemma score_keyword_scored:
  assumes "seq_ratio l k m \<le> 1" and "scored best"
  shows "scored (score_keyword l m cat k best)"
  using assms by (auto simp: scored_def score_keyword_def Let_def split: prod.splits)

lemma score_keywords_scored:
  assumes "\<forall>a b. seq_ratio l a b \<le> 1" and "scored best"
  shows "scored (score_keywords l m cat ks best)"
  using assms(2)
proof (induction ks arbitrary: best)
  case Nil
  then show ?case by simp
next
  case (Cons k ks)
  have "seq_ratio l k m \<le> 1" using assms(1) by blast
  from Cons.IH [OF score_keyword_scored [OF this Cons.prems]]
  show ?case by simp
qed

lemma score_categories_scored:
  assumes "\<forall>a b. seq_ratio l a b \<le> 1" and "scored best"
  shows "scored (score_categories l m cats best)"
  using assms(2)
proof (induction cats arbitrary: best)
  case Nil
  then show ?case by simp
next
  case (Cons c cats)
  obtain cat data where c: "c = (cat, data)" by (cases c)
  from Cons.IH [OF score_keywords_scored [OF assms(1) Cons.prems]]
  show ?case by (simp add: c)
qed

lemma find_best_match_cases:
  assumes "\<forall>a b. seq_ratio l a b \<le> 1"
  shows "find_best_match l kb msg lang = (ustr ''greetings'', 0.9)
         \<or> find_best_match l kb msg lang = (ustr ''unknown'', 0)
         \<or> (0.6 < snd (find_best_match l kb msg lang)
             \<and> snd (find_best_match l kb msg lang) \<le> 1)"
proof -
  have "scored (score_categories l (str_lower l msg) (categories kb) (None, 0))"
    by (rule score_categories_scored [OF assms]) (simp add: scored_def)
  then show ?thesis
    by (auto simp: find_best_match_def Let_def scored_def split: prod.splits option.splits)
qed

text \<open>
  Once the best score is 0.8, keywords whose similarity to the message is at most 0.8
  change nothing.
\<close>

lemma score_keyword_stable:
  assumes "seq_ratio l k m \<le> 0.8"
  shows "score_keyword l m cat k (bm, 0.8) = (bm, 0.8)"
  using assms by (simp add: score_keyword_def Let_def)

lemma score_keywords_stable:
  assumes "list_all (\<lambda>k. seq_ratio l k m \<le> 0.8) ks"
  shows "score_keywords l m cat ks (bm, 0.8) = (bm, 0.8)"
  using assms
proof (induction ks)
  case Nil
  then show ?case by simp
next
  case (Cons k ks)
  from Cons.prems have k: "seq_ratio l k m \<le> 0.8"
    and rest: "list_all (\<lambda>k. seq_ratio l k m \<le> 0.8) ks"
    by simp_all
  show ?case
    by (simp only: score_keywords.simps score_keyword_stable [OF k] Cons.IH [OF rest])
qed

lemma score_categories_stable:
  assumes "list_all (\<lambda>(cat, data). list_all (\<lambda>k. seq_ratio l k m \<le> 0.8) (kb_keywords data)) cats"
  shows "score_categories l m cats (bm, 0.8) = (bm, 0.8)"
  using assms
proof (induction cats)
  case Nil
  then show ?case by simp
next
  case (Cons c cats)
  obtain cat data where c: "c = (cat, data)" by (cases c)
  from Cons.prems c have k: "list_all (\<lambda>k. seq_ratio l k m \<le> 0.8) (kb_keywords data)"
    and rest: "list_all (\<lambda>(cat, data). list_all (\<lambda>k. seq_ratio l k m \<le> 0.8) (kb_keywords data)) cats"
    by simp_all
  show ?case
    by (simp only: c score_categories.simps score_keywords_stable [OF k] Cons.IH [OF rest])
qed

lemma short_keyword_ratio:
  assumes "\<forall>a b. seq_ratio l a b * real (length a + length b) \<le> 2 * real (min (length a) (length b))"
    and "length m = 25" and "length k \<le> 16"
  shows "seq_ratio l k m \<le> 0.8"
proof -
  from assms(1) have "seq_ratio l k m * real (length k + length m)
                       \<le> 2 * real (min (length k) (length m))"
    by blast
  with assms(2,3) have "seq_ratio l k m * real (length k + 25) \<le> 2 * real (length k)"
    by (simp add: min_def)
  moreover have "2 * real (length k) \<le> 0.8 * real (length k + 25)"
    using assms(3) by simp
  ultimately have "seq_ratio l k m * real (length k + 25) \<le> 0.8 * real (length k + 25)"
    by linarith
  moreover have "0 < real (length k + 25)" by simp
  ultimately show ?thesis by (rule mult_right_le_imp_le)
qed

lemma get_fallback_response_by_language:
  "get_fallback_response lang =
     (if lang = ustr ''hi'' then fallback_hi
      else if lang = ustr ''gu'' then fallback_gu
      else if lang = ustr ''mr'' then fallback_mr
      else if lang = ustr ''raj'' then fallback_raj
      else fallback_en)"
proof -
  have codes: "ustr ''en'' \<noteq> ustr ''hi''" "ustr ''en'' \<noteq> ustr ''gu''"
      "ustr ''en'' \<noteq> ustr ''mr''" "ustr ''en'' \<noteq> ustr ''raj''"
    by (simp_all add: ustr_def)
  show ?thesis
    unfolding get_fallback_response_def
    using codes by (cases "lang = ustr ''en''") simp_all
qed

lemma process_message_low_confidence:
  assumes "\<forall>a b. seq_ratio l a b \<le> 1"
  shows "case process_message l now self msg sid lang of
           (r, self') \<Rightarrow>
             0 \<le> confidence r \<and> confidence r \<le> 1
             \<and> (confidence r < 0.6 \<longrightarrow>
                  needs_human r \<and> category r = ustr ''unknown''
                  \<and> response r = get_fallback_response lang
                  \<and> result_contact r = Some (contact (knowledge_base self)))"
  using find_best_match_cases [OF assms, of "knowledge_base self" msg lang]
  by (auto simp: process_message_def Let_def confidence_threshold_def split: prod.splits)

lemma fallback_texts_differ:
  "fallback_hi \<noteq> fallback_en" "fallback_gu \<noteq> fallback_en" "fallback_mr \<noteq> fallback_en"
  "fallback_raj \<noteq> fallback_en"
  by (simp_all add: fallback_en_def fallback_hi_def fallback_gu_def fallback_mr_def
      fallback_raj_def ustr_def)

text \<open>
  C3. Whatever the message, the session and the language, the confidence returned lies in
  \<open>[0, 1]\<close> (given that the similarity ratio of the library never exceeds 1), and a
  confidence below 0.6 comes with \<open>needs_human\<close>, the category \<open>unknown\<close>, the contact
  record of the knowledge base, and the fallback message of the language of the request:
  the Hindi, Gujarati, Marathi or Rajasthani text for \<open>hi\<close>, \<open>gu\<close>, \<open>mr\<close> or \<open>raj\<close>, the
  English text for \<open>en\<close> and for every other code.
\<close>

theorem low_confidence_is_fallback:
  assumes "\<forall>a b. seq_ratio l a b \<le> 1"
  shows "case process_message l now self msg sid lang of
           (r, self') \<Rightarrow>
             0 \<le> confidence r \<and> confidence r \<le> 1
             \<and> (confidence r < 0.6 \<longrightarrow>
                  needs_human r \<and> category r = ustr ''unknown''
                  \<and> response r =
                      (if lang = ustr ''hi'' then fallback_hi
                       else if lang = ustr ''gu'' then fallback_gu
                       else if lang = ustr ''mr'' then fallback_mr
                       else if lang = ustr ''raj'' then fallback_raj
                       else fallback_en)
                  \<and> result_contact r = Some (contact (knowledge_base self)))"
  using process_message_low_confidence [OF assms, where now = now and self = self
      and msg = msg and sid = sid and lang = lang]
  by (simp only: get_fallback_response_by_language)

lemma gibberish_lower:
  "str_lower example_lib (ustr ''xyz123 random gibberish'') = ustr ''xyz123 random gibberish''"
  by (simp add: example_lib_def ascii_lower_def ustr_def)

lemma gibberish_unknown:
  "find_best_match example_lib get_default_knowledge_base (ustr ''xyz123 random gibberish'') lang
     = (ustr ''unknown'', 0)"
  unfolding find_best_match_def gibberish_lower Let_def
  by (simp add: get_default_knowledge_base_def score_keyword_def Let_def example_lib_def
      block_ratio_def matching_size.simps find_longest_match_def ustr_def)

theorem low_confidence_is_fallback_witness:
  "(\<forall>a b. seq_ratio example_lib a b \<le> 1)
   \<and> confidence (gibberish_result (ustr ''en'')) = 0
   \<and> needs_human (gibberish_result (ustr ''en''))
   \<and> category (gibberish_result (ustr ''en'')) = ustr ''unknown''
   \<and> result_contact (gibberish_result (ustr ''en''))
       = Some [(ustr ''office_hours'', ustr ''9:00 AM - 5:00 PM, Monday to Friday''),
               (ustr ''phone'', ustr ''+91-XXX-XXX-XXXX''),
               (ustr ''email'', ustr ''info@college.edu''),
               (ustr ''address'', ustr ''College Campus, City, State'')]
   \<and> response (gibberish_result (ustr ''en'')) = fallback_en
   \<and> response (gibberish_result (ustr ''hi'')) = fallback_hi
   \<and> response (gibberish_result (ustr ''gu'')) = fallback_gu
   \<and> response (gibberish_result (ustr ''mr'')) = fallback_mr
   \<and> response (gibberish_result (ustr ''raj'')) = fallback_raj
   \<and> response (gibberish_result (ustr ''fr'')) = fallback_en
   \<and> fallback_hi \<noteq> fallback_en \<and> fallback_gu \<noteq> fallback_en
   \<and> fallback_mr \<noteq> fallback_en \<and> fallback_raj \<noteq> fallback_en"
proof -
  have le1: "\<forall>a b. seq_ratio example_lib a b \<le> 1"
    using example_lib_ratio by blast
  have kb: "knowledge_base (init_engine get_default_knowledge_base) = get_default_knowledge_base"
    by (simp add: init_engine_def)
  have conf: "confidence (gibberish_result lang) = 0" for lang
    by (simp add: gibberish_result_def process_message_def kb gibberish_unknown Let_def)
  have inst: "needs_human (gibberish_result lang)
        \<and> category (gibberish_result lang) = ustr ''unknown''
        \<and> response (gibberish_result lang) =
            (if lang = ustr ''hi'' then fallback_hi
             else if lang = ustr ''gu'' then fallback_gu
             else if lang = ustr ''mr'' then fallback_mr
             else if lang = ustr ''raj'' then fallback_raj
             else fallback_en)
        \<and> result_contact (gibberish_result lang) = Some (contact get_default_knowledge_base)"
    for lang
    using low_confidence_is_fallback [OF le1, where now = jan15_late
        and self = "init_engine get_default_knowledge_base"
        and msg = "ustr ''xyz123 random gibberish''" and sid = "ustr ''s1''" and lang = lang]
      conf [of lang]
    by (simp add: case_prod_unfold gibberish_result_def kb)
  have contact: "contact get_default_knowledge_base
       = [(ustr ''office_hours'', ustr ''9:00 AM - 5:00 PM, Monday to Friday''),
          (ustr ''phone'', ustr ''+91-XXX-XXX-XXXX''),
          (ustr ''email'', ustr ''info@college.edu''),
          (ustr ''address'', ustr ''College Campus, City, State'')]"
    by (simp add: get_default_knowledge_base_def)
  have codes: "ustr ''en'' \<noteq> ustr ''hi''" "ustr ''en'' \<noteq> ustr ''gu''" "ustr ''en'' \<noteq> ustr ''mr''"
      "ustr ''en'' \<noteq> ustr ''raj''" "ustr ''gu'' \<noteq> ustr ''hi''" "ustr ''mr'' \<noteq> ustr ''hi''"
      "ustr ''mr'' \<noteq> ustr ''gu''" "ustr ''raj'' \<noteq> ustr ''hi''" "ustr ''raj'' \<noteq> ustr ''gu''"
      "ustr ''raj'' \<noteq> ustr ''mr''" "ustr ''fr'' \<noteq> ustr ''hi''" "ustr ''fr'' \<noteq> ustr ''gu''"
      "ustr ''fr'' \<noteq> ustr ''mr''" "ustr ''fr'' \<noteq> ustr ''raj''"
    by (simp_all add: ustr_def)
  from inst [of "ustr ''en''"] inst [of "ustr ''hi''"] inst [of "ustr ''gu''"]
    inst [of "ustr ''mr''"] inst [of "ustr ''raj''"] inst [of "ustr ''fr''"]
    conf [of "ustr ''en''"] le1 fallback_texts_differ
  show ?thesis
    by (simp add: codes contact)
qed

text \<open>
  C4. The claim names the category \<open>greeting\<close>; the code returns \<open>greetings\<close>. At the
  message \<open>hello\<close>, with the built-in knowledge base:
\<close>

theorem greeting_category_is_plural:
  "list_ex (\<lambda>k. contains (str_lower example_lib (ustr ''hello'')) k)
     (kb_keywords (greetings get_default_knowledge_base))
   \<and> find_best_match example_lib get_default_knowledge_base (ustr ''hello'') (ustr ''en'')
       = (ustr ''greetings'', 0.9)
   \<and> ustr ''greetings'' \<noteq> ustr ''greeting''"
  by (simp add: find_best_match_def Let_def example_lib_def ascii_lower_def
      get_default_knowledge_base_def ustr_def)

text \<open>
  C4, amended. A message whose lower-cased text contains a greeting keyword gets the
  category \<open>greetings\<close> and the confidence 0.9, whatever the categories hold and whatever
  the similarity ratio says; it is answered with the greeting of the knowledge base, and
  \<open>needs_human\<close> is false.
\<close>

theorem greeting_short_circuit:
  assumes "list_ex (\<lambda>k. contains (str_lower l msg) k) (kb_keywords (greetings (knowledge_base self)))"
  shows "find_best_match l (knowledge_base self) msg lang = (ustr ''greetings'', 0.9)
         \<and> fst (process_message l now self msg sid lang)
             = \<lparr>response = lookup_response (kb_responses (greetings (knowledge_base self))) lang,
                confidence = 0.9, category = ustr ''greetings'', needs_human = False,
                result_contact = None\<rparr>"
  using assms
  by (simp add: process_message_def find_best_match_def Let_def confidence_threshold_def
      get_response_def)

theorem greeting_short_circuit_witness:
  "list_ex (\<lambda>k. contains (str_lower example_lib (ustr ''Hello, what is the fee?'')) k)
     (kb_keywords (greetings get_default_knowledge_base))
   \<and> list_ex (\<lambda>k. contains (str_lower example_lib (ustr ''Hello, what is the fee?'')) k)
       (kb_keywords (snd (hd (categories get_default_knowledge_base))))
   \<and> find_best_match example_lib get_default_knowledge_base (ustr ''Hello, what is the fee?'')
       (ustr ''en'') = (ustr ''greetings'', 0.9)
   \<and> fst (process_message example_lib jan15_late (init_engine get_default_knowledge_base)
            (ustr ''Hello, what is the fee?'') (ustr ''s1'') (ustr ''en''))
       = \<lparr>response = greetings_en, confidence = 0.9, category = ustr ''greetings'',
          needs_human = False, result_contact = None\<rparr>"
proof -
  have g: "list_ex (\<lambda>k. contains (str_lower example_lib (ustr ''Hello, what is the fee?'')) k)
     (kb_keywords (greetings get_default_knowledge_base))"
    by (simp add: example_lib_def ascii_lower_def get_default_knowledge_base_def ustr_def)
  have f: "list_ex (\<lambda>k. contains (str_lower example_lib (ustr ''Hello, what is the fee?'')) k)
       (kb_keywords (snd (hd (categories get_default_knowledge_base))))"
    by (simp add: example_lib_def ascii_lower_def get_default_knowledge_base_def ustr_def)
  have r: "lookup_response (kb_responses (greetings get_default_knowledge_base)) (ustr ''en'')
           = greetings_en"
    by (simp add: lookup_response_def get_default_knowledge_base_def ustr_def)
  have kb: "knowledge_base (init_engine get_default_knowledge_base) = get_default_knowledge_base"
    by (simp add: init_engine_def)
  from greeting_short_circuit [of example_lib "ustr ''Hello, what is the fee?''"
      "init_engine get_default_knowledge_base" "ustr ''en''" jan15_late "ustr ''s1''"] g f r kb
  show ?thesis by simp
qed

text \<open>
  C6. The message \<open>What is the fee deadline?\<close>, the built-in knowledge base. Of the
  libraries: \<open>str.lower\<close> gives the lower-case text; the similarity ratio \<open>2 * M / T\<close> has
  its matches \<open>M\<close> bounded by the shorter of the two lengths; and the statistical detector
  does not take the sentence for one of the eight Indic languages the identifier maps to
  a code other than \<open>en\<close>. Then the identifier returns \<open>en\<close>, the best match is \<open>fees\<close> with
  confidence 0.8, which is not below the threshold, and the result is the English fees
  response with \<open>needs_human\<close> false.
\<close>

theorem fee_deadline_example:
  assumes "str_lower l (ustr ''What is the fee deadline?'') = ustr ''what is the fee deadline?''"
    and "\<forall>a b. seq_ratio l a b * real (length a + length b)
                 \<le> 2 * real (min (length a) (length b))"
    and "list_all (\<lambda>code. lang_detect l (ustr ''What is the fee deadline?'') \<noteq> Some code)
           [ustr ''hi'', ustr ''gu'', ustr ''mr'', ustr ''raj'',
            ustr ''ne'', ustr ''bn'', ustr ''ur'', ustr ''pa'']"
    and "knowledge_base self = get_default_knowledge_base"
  shows "detect_language l (ustr ''What is the fee deadline?'') = ustr ''en''
         \<and> contains (str_lower l (ustr ''What is the fee deadline?'')) (ustr ''fee'')
         \<and> find_best_match l (knowledge_base self) (ustr ''What is the fee deadline?'') (ustr ''en'')
             = (ustr ''fees'', 0.8)
         \<and> confidence_threshold \<le> 0.8
         \<and> fst (process_message l now self (ustr ''What is the fee deadline?'') sid (ustr ''en''))
             = \<lparr>response = fees_en, confidence = 0.8, category = ustr ''fees'',
                needs_human = False, result_contact = None\<rparr>"
proof -
  let ?msg = "ustr ''What is the fee deadline?''"
  let ?m = "ustr ''what is the fee deadline?''"
  have no_pattern: "pattern_based_detection l ?msg = None"
    by (simp add: pattern_based_detection_def language_patterns_def words_match_here_def ustr_def)
  have long: "\<not> (?msg = [] \<or> length (strip ?msg) < 3)"
    by (simp add: strip_def isspace_def ustr_def)
  have detect: "detect_language l ?msg = ustr ''en''"
  proof (cases "lang_detect l ?msg")
    case None
    with no_pattern long show ?thesis by (simp add: detect_language_def)
  next
    case (Some code)
    with assms(3) have "code \<notin> {ustr ''hi'', ustr ''gu'', ustr ''mr'', ustr ''raj'',
            ustr ''ne'', ustr ''bn'', ustr ''ur'', ustr ''pa''}"
      by auto
    then have "(case map_of language_map code of Some c \<Rightarrow> c | None \<Rightarrow> map_similar_language code)
               = ustr ''en''"
      by (auto simp: language_map_def map_similar_language_def)
    with no_pattern long Some show ?thesis by (simp add: detect_language_def)
  qed
  have len: "length ?m = 25" by (simp add: ustr_def)
  have ratio: "seq_ratio l k ?m \<le> 0.8" if "length k \<le> 16" for k
    using short_keyword_ratio [OF assms(2) len that] .
  have no_greeting: "\<not> list_ex (\<lambda>k. contains ?m k) (kb_keywords (greetings get_default_knowledge_base))"
    by (simp add: get_default_knowledge_base_def ustr_def)
  have fee: "contains ?m (ustr ''fee'')"
    by (simp add: ustr_def)
  have short: "list_all (\<lambda>(cat, data). list_all (\<lambda>k. length k \<le> 16) (kb_keywords data))
                 (categories get_default_knowledge_base)"
    by (simp add: get_default_knowledge_base_def ustr_def)
  then have bounded: "list_all (\<lambda>(cat, data). list_all (\<lambda>k. seq_ratio l k ?m \<le> 0.8) (kb_keywords data))
                 (categories get_default_knowledge_base)"
    using ratio by (auto simp: list_all_iff)
  obtain data rest kws where cats: "categories get_default_knowledge_base = (ustr ''fees'', data) # rest"
      and kws: "kb_keywords data = ustr ''fee'' # kws"
    by (simp add: get_default_knowledge_base_def)
  from bounded cats have b1: "list_all (\<lambda>k. seq_ratio l k ?m \<le> 0.8) (kb_keywords data)"
    and b2: "list_all (\<lambda>(cat, data). list_all (\<lambda>k. seq_ratio l k ?m \<le> 0.8) (kb_keywords data)) rest"
    by simp_all
  from b1 have b3: "seq_ratio l (ustr ''fee'') ?m \<le> 0.8"
    and b4: "list_all (\<lambda>k. seq_ratio l k ?m \<le> 0.8) kws"
    unfolding kws by simp_all
  have "score_keywords l ?m (ustr ''fees'') (kb_keywords data) (None, 0)
        = score_keywords l ?m (ustr ''fees'') kws (Some (ustr ''fees''), 0.8)"
    unfolding kws using fee b3 by (simp add: score_keyword_def Let_def)
  also have "\<dots> = (Some (ustr ''fees''), 0.8)"
    by (rule score_keywords_stable [OF b4])
  finally have sk: "score_keywords l ?m (ustr ''fees'') (kb_keywords data) (None, 0)
                    = (Some (ustr ''fees''), 0.8)" .
  have sc: "score_categories l ?m (categories get_default_knowledge_base) (None, 0)
            = (Some (ustr ''fees''), 0.8)"
    by (simp only: cats score_categories.simps sk score_categories_stable [OF b2])
  have nonempty: "ustr ''fees'' \<noteq> []"
    by (simp add: ustr_def)
  have best: "find_best_match l get_default_knowledge_base ?msg (ustr ''en'')
              = (ustr ''fees'', 0.8)"
    unfolding find_best_match_def assms(1) Let_def
    using no_greeting nonempty by (simp only: sc if_False prod.case option.case)
  have resp: "get_response get_default_knowledge_base (ustr ''fees'') (ustr ''en'') = fees_en"
    by (simp add: get_response_def lookup_response_def get_default_knowledge_base_def ustr_def)
  have engine: "fst (process_message l now self ?msg sid (ustr ''en''))
             = \<lparr>response = fees_en, confidence = 0.8, category = ustr ''fees'',
                needs_human = False, result_contact = None\<rparr>"
    by (simp add: process_message_def assms(4) best resp Let_def confidence_threshold_def)
  have threshold: "confidence_threshold \<le> 0.8"
    by (simp add: confidence_threshold_def)
  from detect fee best engine threshold show ?thesis
    by (simp only: assms(1,4) simp_thms)
qed

theorem fee_deadline_example_witness:
  "detect_language example_lib (ustr ''What is the fee deadline?'') = ustr ''en''
   \<and> find_best_match example_lib get_default_knowledge_base (ustr ''What is the fee deadline?'')
       (ustr ''en'') = (ustr ''fees'', 0.8)
   \<and> fst (process_message example_lib jan15_late (init_engine get_default_knowledge_base)
            (ustr ''What is the fee deadline?'') (ustr ''s1'') (ustr ''en''))
       = \<lparr>response = fees_en, confidence = 0.8, category = ustr ''fees'',
          needs_human = False, result_contact = None\<rparr>"
proof -
  have d: "list_all (\<lambda>code. lang_detect example_lib (ustr ''What is the fee deadline?'') \<noteq> Some code)
           [ustr ''hi'', ustr ''gu'', ustr ''mr'', ustr ''raj'',
            ustr ''ne'', ustr ''bn'', ustr ''ur'', ustr ''pa'']"
    by (simp add: example_lib_def ascii_letter_def ustr_def)
  have r: "\<forall>a b. seq_ratio example_lib a b * real (length a + length b)
                 \<le> 2 * real (min (length a) (length b))"
    using example_lib_ratio by blast
  have kb: "knowledge_base (init_engine get_default_knowledge_base) = get_default_knowledge_base"
    by (simp add: init_engine_def)
  from fee_deadline_example [OF example_lib_lower r d kb, of jan15_late "ustr ''s1''"] kb
  show ?thesis by simp
qed

section \<open>The chat endpoint: claims\<close>

lemma hello_detected:
  "detect_language example_lib (ustr ''hello'') = ustr ''en''"
  by (simp add: detect_language_def strip_def isspace_def pattern_based_detection_def
      language_patterns_def words_match_here_def example_lib_def ascii_letter_def
      language_map_def ustr_def)

lemma hello_classified:
  "fst (process_message example_lib jan15_late (init_engine get_default_knowledge_base)
          (ustr ''hello'') (ustr ''u1'') (ustr ''en''))
     = \<lparr>response = greetings_en, confidence = 0.9, category = ustr ''greetings'',
        needs_human = False, result_contact = None\<rparr>"
  by (simp add: process_message_def find_best_match_def Let_def confidence_threshold_def
      get_response_def lookup_response_def init_engine_def example_lib_def ascii_lower_def
      get_default_knowledge_base_def ustr_def)

text \<open>
  C5. The claim: when logging fails after the classification has succeeded, the result
  computed is still returned to the end user. At the example request the classification
  succeeds (a greeting, confidence 0.9), the logging call fails, and the answer of \<open>chat\<close>
  is the \<open>HTTPException\<close> with status 500, not a \<open>ChatResponse\<close>.
\<close>

theorem chat_logging_failure_loses_answer:
  "fst (process_message example_lib (engine_now failing_env) (chatbot_engine fresh_state)
          (message hello_request) (uuid4 failing_env) (ustr ''en''))
     = \<lparr>response = greetings_en, confidence = 0.9, category = ustr ''greetings'',
        needs_human = False, result_contact = None\<rparr>
   \<and> fst (chat example_lib failing_env hello_request fresh_state)
       = Inl (HTTPException 500 Sqlite_error)"
proof -
  have "fst (chat example_lib failing_env hello_request fresh_state)
          = Inl (HTTPException 500 Sqlite_error)"
    by (simp add: chat_def Let_def hello_request_def failing_env_def log_conversation_def
        split: prod.splits)
  then show ?thesis
    using hello_classified
    by (simp add: hello_request_def failing_env_def fresh_state_def)
qed

text \<open>
  C5, amended. When SQLite fails in either block of the logging call, \<open>log_conversation\<close>
  raises the error to its caller, whatever its arguments, and \<open>chat\<close> answers with the
  \<open>HTTPException\<close> of status 500 that reports it: the failure is not swallowed, and the
  classification result is not returned.
\<close>

theorem chat_logging_failure_is_http_500:
  assumes "log_fault env \<noteq> No_fault"
  shows "raised (log_conversation (log_fault env) clk sid um br lang conf cat nh s) = Some Sqlite_error
         \<and> fst (chat l env msg st) = Inl (HTTPException 500 Sqlite_error)"
  using assms
  by (cases "log_fault env")
    (simp_all add: chat_def log_conversation_def Let_def split: prod.splits)

theorem chat_logging_failure_is_http_500_witness:
  "log_fault failing_env \<noteq> No_fault
   \<and> raised (log_conversation (log_fault failing_env) jan15_clock (ustr ''u1'') (ustr ''hello'')
              greetings_en (ustr ''en'') 0.9 None False init_database) = Some Sqlite_error
   \<and> fst (chat example_lib failing_env hello_request fresh_state)
       = Inl (HTTPException 500 Sqlite_error)"
proof -
  have f: "log_fault failing_env \<noteq> No_fault"
    by (simp add: failing_env_def)
  from chat_logging_failure_is_http_500 [OF f, where clk = jan15_clock and sid = "ustr ''u1''"
      and um = "ustr ''hello''" and br = greetings_en and lang = "ustr ''en''" and conf = "0.9"
      and cat = None and nh = False and s = init_database and l = example_lib
      and msg = hello_request and st = fresh_state] f
  show ?thesis by simp
qed

end
